theory Spec2Isabelle
  imports Main "HOL-Library.Word"
begin

section \<open>The renderer of the console host\<close>

text \<open>
  A shallow embedding of \<^verbatim>\<open>Renderer\<close> (the second document of
  \<^verbatim>\<open>src/src/host/history.h\<close>): the frame orchestration, the fan-out of the
  \<^verbatim>\<open>Trigger*\<close> notifications over the attached engines, and the helpers that turn
  one row of cells into engine draw calls.

  The renderer talks to three collaborators whose code is elsewhere: the render engines
  (\<^verbatim>\<open>IRenderEngine\<close>), the console data (\<^verbatim>\<open>IRenderData\<close>) and the paint thread
  (\<^verbatim>\<open>RenderThread\<close>). An engine is a record of what its methods answer; the console
  data is a record of what its accessors return while one renderer operation runs. What
  the renderer does to them is written down as a list of events, in the order of the
  source's statements. A failure is a failed \<^verbatim>\<open>HRESULT\<close>, a failed allocation, or an
  exception where the source catches one; an exception that nothing in the renderer
  catches is outside the model.
\<close>

subsection \<open>Machine types\<close>

type_synonym SHORT = "16 word"
type_synonym WORD = "16 word"
type_synonym wchar = "16 word"
type_synonym DWORD = "32 word"
type_synonym COLORREF = "32 word"
type_synonym HRESULT = "32 word"

text \<open>\<^verbatim>\<open>HRESULT\<close> is a signed 32-bit value; a negative one is a failure.\<close>

definition S_OK :: HRESULT where
  "S_OK = 0"

definition S_FALSE :: HRESULT where
  "S_FALSE = 1"

definition E_FAIL :: HRESULT where
  "E_FAIL = 0x80004005"

definition E_OUTOFMEMORY :: HRESULT where
  "E_OUTOFMEMORY = 0x8007000E"

definition INFINITE :: DWORD where
  "INFINITE = 0xFFFFFFFF"

definition FAILED :: "HRESULT \<Rightarrow> bool" where
  "FAILED hr \<longleftrightarrow> sint hr < 0"

definition SUCCEEDED :: "HRESULT \<Rightarrow> bool" where
  "SUCCEEDED hr \<longleftrightarrow> 0 \<le> sint hr"

record COORD =
  X :: SHORT
  Y :: SHORT

record SMALL_RECT =
  Left :: SHORT
  Top :: SHORT
  Right :: SHORT
  Bottom :: SHORT

subsection \<open>Cells, attributes and fonts\<close>

text \<open>
  The width class of a cell (\<^verbatim>\<open>DbcsAttribute\<close>): a wide glyph is stored twice, in a
  leading and in a trailing cell.
\<close>

datatype DbcsAttribute = Single | Leading | Trailing

definition IsLeading :: "DbcsAttribute \<Rightarrow> bool" where
  "IsLeading a \<longleftrightarrow> a = Leading"

definition IsTrailing :: "DbcsAttribute \<Rightarrow> bool" where
  "IsTrailing a \<longleftrightarrow> a = Trailing"

record CharRowCell =
  CellChar :: wchar
  DbcsAttr :: DbcsAttribute

text \<open>
  A \<^verbatim>\<open>TextAttribute\<close> is read by the renderer through the six accessors below only.
\<close>

record TextAttribute =
  GetLegacyAttributes :: WORD
  IsBold :: bool
  IsTopHorizontalDisplayed :: bool
  IsBottomHorizontalDisplayed :: bool
  IsLeftVerticalDisplayed :: bool
  IsRightVerticalDisplayed :: bool

record GridLines =
  LinesTop :: bool
  LinesBottom :: bool
  LinesLeft :: bool
  LinesRight :: bool

record FontInfo =
  IsTrueTypeFont :: bool
  GetCodePage :: nat

type_synonym FontInfoDesired = "wchar list"
type_synonym CursorType = nat

text \<open>
  A \<^verbatim>\<open>PCWCHAR\<close> is a pointer into a line of text: the function from an offset to the
  character stored there. Advancing the pointer shifts the function.
\<close>

type_synonym PCWCHAR = "nat \<Rightarrow> wchar"

subsection \<open>Engines and events\<close>

text \<open>
  The methods of \<^verbatim>\<open>IRenderEngine\<close> that the renderer calls, each with the arguments
  it is given (out-parameters left out).
\<close>

datatype call =
    StartPaint
  | EndPaint
  | Present
  | ScrollFrame
  | PaintBackground
  | UpdateViewport SMALL_RECT
  | InvalidateScroll COORD
  | InvalidateSelection "SMALL_RECT list"
  | InvalidateCursor COORD
  | UpdateDrawingBrushes COLORREF COLORREF WORD bool bool
  | PaintBufferLine "wchar list" "8 word list" nat COORD bool bool
  | PaintBufferGridLines GridLines COLORREF nat COORD
  | PaintSelection SMALL_RECT
  | PaintCursor COORD nat bool CursorType bool COLORREF
  | UpdateTitle "wchar list"
  | GetDirtyRectInChars
  | PrepareForTeardown
  | GetProposedFont FontInfoDesired int
  | GetFontSize
  | IsGlyphWideByFont "wchar list"

text \<open>
  An engine: the \<^verbatim>\<open>HRESULT\<close> each call returns, and what its out-parameters hold
  afterwards (for the three font queries as a function of what they held before). In
  each operation modelled here, a call whose result decides what the renderer does next
  (\<^verbatim>\<open>StartPaint\<close>, the steps of a frame that can abort it, \<^verbatim>\<open>Present\<close>,
  \<^verbatim>\<open>PrepareForTeardown\<close>, a font query) is made at most once on each engine; the
  results of all other calls are only logged.
\<close>

record IRenderEngine =
  Returns :: "call \<Rightarrow> HRESULT"
  DirtyRectInChars :: SMALL_RECT
  RequestsRepaint :: bool
  ProposedFont :: "FontInfoDesired \<Rightarrow> int \<Rightarrow> FontInfo \<Rightarrow> FontInfo"
  FontSize :: "COORD \<Rightarrow> COORD"
  GlyphIsWide :: "wchar list \<Rightarrow> bool \<Rightarrow> bool"

text \<open>
  What an operation of the renderer does, in order: taking and releasing the console
  lock, a call of a method on the engine at an index of \<^verbatim>\<open>_rgpEngines\<close>, a line
  written to the failure log, and the two requests to the paint thread.
\<close>

datatype event =
    LockConsole
  | UnlockConsole
  | Call nat call
  | Log HRESULT
  | NotifyPaint
  | WaitForPaintCompletionAndDisable DWORD

definition LOG_IF_FAILED :: "HRESULT \<Rightarrow> event list" where
  "LOG_IF_FAILED hr = (if FAILED hr then [Log hr] else [])"

text \<open>One engine call whose result is only logged.\<close>

definition logged :: "nat \<Rightarrow> IRenderEngine \<Rightarrow> call \<Rightarrow> event list" where
  "logged i pEngine c = Call i c # LOG_IF_FAILED (Returns pEngine c)"

subsection \<open>The console data\<close>

text \<open>
  The class \<^verbatim>\<open>Viewport\<close> is declared outside these sources. A viewport is the record
  of what the member functions the renderer calls on it return:
  \<^verbatim>\<open>ConvertRectToOrigin view rect\<close> stands for
  \<^verbatim>\<open>view.ConvertToOrigin(Viewport::FromInclusive(rect)).ToInclusive()\<close>, and
  \<^verbatim>\<open>TrimToViewport\<close> returns its result together with the rectangle it leaves in its
  argument.
\<close>

record Viewport =
  ToInclusive :: SMALL_RECT
  IsInBounds :: "COORD \<Rightarrow> bool"
  ConvertToOrigin :: "COORD \<Rightarrow> COORD"
  ConvertRectToOrigin :: "SMALL_RECT \<Rightarrow> SMALL_RECT"
  TrimToViewport :: "SMALL_RECT \<Rightarrow> bool \<times> SMALL_RECT"

text \<open>
  A row is read through \<^verbatim>\<open>GetAttrRow().GetAttrByColumn(column, &applies)\<close>: the
  attribute at a column, and for how many columns from there it applies.
\<close>

record ROW =
  GetAttrByColumn :: "nat \<Rightarrow> TextAttribute \<times> nat"

text \<open>
  The arguments with which the row loops of \<^verbatim>\<open>_PaintBufferOutput\<close> and
  \<^verbatim>\<open>_PaintIme\<close> call \<^verbatim>\<open>_PaintBufferOutputRasterFontHelper\<close> for one row. The text
  buffer and its rows are outside these sources, and the loops clamp the dirty rectangle
  to the size of that buffer and to the viewport before they walk the rows, so the data
  gives, for a dirty rectangle, the rows the loop reaches after clamping, and the error
  it logs when it stops early on an exception.
\<close>

record paint_row =
  row_Row :: ROW
  row_pwsLine :: PCWCHAR
  row_it :: "CharRowCell list"
  row_cchLine :: nat
  row_iFirstAttr :: nat
  row_coordTarget :: COORD
  row_lineWrapped :: bool

text \<open>
  A composition area: whether it is hidden, the exception (if any) that
  \<^verbatim>\<open>GetImeCompositionStringBuffer\<close> throws for it, and the rows its loop reaches.
\<close>

record ConversionAreaInfo =
  IsHidden :: bool
  GetImeCompositionStringBuffer :: "HRESULT option"
  AreaRows :: "SMALL_RECT \<Rightarrow> paint_row list \<times> HRESULT option"

text \<open>
  \<^verbatim>\<open>IRenderData\<close>: what the accessors return while one operation of the renderer
  runs. \<^verbatim>\<open>GetSelectionRects\<close> returns a vector by value; \<^verbatim>\<open>Inl\<close> is the exception
  of a failed copy, which \<^verbatim>\<open>TriggerSelection\<close> and \<^verbatim>\<open>_PaintSelection\<close> catch.
\<close>

record IRenderData =
  GetViewport :: Viewport
  GetSelectionRects :: "HRESULT + SMALL_RECT list"
  GetDefaultBrushColors :: TextAttribute
  GetForegroundColor :: "TextAttribute \<Rightarrow> COLORREF"
  GetBackgroundColor :: "TextAttribute \<Rightarrow> COLORREF"
  GetConsoleTitle :: "wchar list"
  GetFontInfo :: FontInfo
  IsGridLineDrawingAllowed :: bool
  IsCursorVisible :: bool
  GetCursorPosition :: COORD
  GetCursorHeight :: nat
  IsCursorDoubleWidth :: bool
  GetCursorStyle :: CursorType
  GetCursorColor :: COLORREF
  BufferRows :: "SMALL_RECT \<Rightarrow> paint_row list \<times> HRESULT option"
  ConvAreaCompStr :: "ConversionAreaInfo list"

text \<open>
  The parts of the platform the helpers depend on: whether a non-throwing allocation of
  a number of elements succeeds, the round trip of a line through the code page of a
  raster font (\<^verbatim>\<open>None\<close> when one of its steps fails), the viewport that
  \<^verbatim>\<open>Viewport::FromInclusive\<close> makes of a rectangle, and the value of the constant
  \<^verbatim>\<open>INVALID_COLOR\<close>.
\<close>

record Platform =
  AllocWchar :: "nat \<Rightarrow> bool"
  AllocUchar :: "nat \<Rightarrow> bool"
  RasterConvert :: "nat \<Rightarrow> PCWCHAR \<Rightarrow> nat \<Rightarrow> PCWCHAR option"
  FromInclusive :: "SMALL_RECT \<Rightarrow> Viewport"
  INVALID_COLOR :: COLORREF

subsection \<open>The renderer\<close>

text \<open>
  Modelled from the spec: the paint scheduler (\<^verbatim>\<open>RenderThread\<close>, whose code is not in
  these sources) is in one of the states \<open>Disabled\<close> (initial, and final after teardown)
  and \<open>Enabled\<close>; wait-for-completion-and-disable blocks until any in-flight paint
  finishes or the timeout elapses, then forces \<open>Disabled\<close>.
\<close>

datatype RenderThread = Disabled | Enabled

definition RenderThread_WaitForPaintCompletionAndDisable :: "DWORD \<Rightarrow> RenderThread \<Rightarrow> RenderThread" where
  "RenderThread_WaitForPaintCompletionAndDisable dwTimeoutMs t = Disabled"

record Renderer =
  pData :: IRenderData
  pThread :: RenderThread
  rgpEngines :: "IRenderEngine list"
  srViewportPrevious :: SMALL_RECT
  previousSelection :: "SMALL_RECT list"

subsection \<open>Wide glyphs: \<^verbatim>\<open>_PaintBufferOutputDoubleByteHelper\<close>\<close>

text \<open>
  The locals the walk over the cells updates: the two arrays (as far as they are
  written), the draw target and the trim flag. \<^verbatim>\<open>cchSegment\<close> is the number of
  entries written.
\<close>

record dbcs_locals =
  pwsSegment :: "wchar list"
  rgSegmentWidth :: "8 word list"
  coordTargetAdjustable :: COORD
  fTrimLeft :: bool

definition DoubleByte_step :: "PCWCHAR \<Rightarrow> nat \<Rightarrow> CharRowCell \<Rightarrow> dbcs_locals \<Rightarrow> dbcs_locals" where
  "DoubleByte_step pwsLine iLine itCurrent s =
     (if \<not> IsTrailing (DbcsAttr itCurrent) then
        s\<lparr>pwsSegment := pwsSegment s @ [pwsLine iLine],
          rgSegmentWidth := rgSegmentWidth s @ [if IsLeading (DbcsAttr itCurrent) then 2 else 1]\<rparr>
      else if iLine = 0 then
        s\<lparr>pwsSegment := pwsSegment s @ [pwsLine iLine],
          rgSegmentWidth := rgSegmentWidth s @ [2],
          coordTargetAdjustable := (coordTargetAdjustable s)\<lparr>X := X (coordTargetAdjustable s) - 1\<rparr>,
          fTrimLeft := True\<rparr>
      else s)"

text \<open>
  The \<^verbatim>\<open>for\<close> loop: it runs while \<^verbatim>\<open>iLine < cchLine\<close> and the iterator has not
  reached \<^verbatim>\<open>itEnd\<close>; the list holds the cells from the iterator to \<^verbatim>\<open>itEnd\<close>.
\<close>

fun DoubleByte_walk :: "PCWCHAR \<Rightarrow> nat \<Rightarrow> nat \<Rightarrow> CharRowCell list \<Rightarrow> dbcs_locals \<Rightarrow> dbcs_locals" where
  "DoubleByte_walk pwsLine cchLine iLine [] s = s"
| "DoubleByte_walk pwsLine cchLine iLine (itCurrent # cells) s =
     (if iLine < cchLine
      then DoubleByte_walk pwsLine cchLine (iLine + 1) cells (DoubleByte_step pwsLine iLine itCurrent s)
      else s)"

definition Renderer_PaintBufferOutputDoubleByteHelper ::
  "Platform \<Rightarrow> nat \<Rightarrow> IRenderEngine \<Rightarrow> PCWCHAR \<Rightarrow> CharRowCell list \<Rightarrow> nat \<Rightarrow> COORD \<Rightarrow> bool
     \<Rightarrow> HRESULT \<times> event list" where
  "Renderer_PaintBufferOutputDoubleByteHelper pf i pEngine pwsLine it cchLine coordTarget lineWrapped =
     (if \<not> AllocWchar pf cchLine then (E_OUTOFMEMORY, [])
      else if \<not> AllocUchar pf cchLine then (E_OUTOFMEMORY, [])
      else
        let s = DoubleByte_walk pwsLine cchLine 0 it
                  \<lparr>pwsSegment = [], rgSegmentWidth = [],
                   coordTargetAdjustable = coordTarget, fTrimLeft = False\<rparr>;
            n = min (length (pwsSegment s)) cchLine;
            c = PaintBufferLine (take n (pwsSegment s)) (take n (rgSegmentWidth s)) n
                  (coordTargetAdjustable s) (fTrimLeft s) lineWrapped;
            hr = Returns pEngine c
        in (if FAILED hr then hr else S_OK, [Call i c]))"

text \<open>
  For stating what reaches the engine: the cells of a run that are not trailing cells,
  each with its offset in the run (counted from \<open>i\<close>), and the width a cell is tagged
  with.
\<close>

definition kept_cells :: "nat \<Rightarrow> CharRowCell list \<Rightarrow> (nat \<times> CharRowCell) list" where
  "kept_cells i cells = filter (\<lambda>p. \<not> IsTrailing (DbcsAttr (snd p))) (enumerate i cells)"

definition cell_width :: "CharRowCell \<Rightarrow> 8 word" where
  "cell_width c = (if IsLeading (DbcsAttr c) then 2 else 1)"

subsection \<open>Attribute runs: \<^verbatim>\<open>_PaintBufferOutputColorHelper\<close>\<close>

definition Renderer_UpdateDrawingBrushes ::
  "IRenderData \<Rightarrow> nat \<Rightarrow> IRenderEngine \<Rightarrow> TextAttribute \<Rightarrow> bool \<Rightarrow> HRESULT \<times> event list" where
  "Renderer_UpdateDrawingBrushes d i pEngine textAttributes fIncludeBackground =
     (let c = UpdateDrawingBrushes (GetForegroundColor d textAttributes) (GetBackgroundColor d textAttributes)
                (GetLegacyAttributes textAttributes) (IsBold textAttributes) fIncludeBackground;
          hr = Returns pEngine c
      in (if FAILED hr then hr else S_OK, [Call i c]))"

definition s_GetGridlines :: "TextAttribute \<Rightarrow> GridLines" where
  "s_GetGridlines textAttribute =
     \<lparr>LinesTop = IsTopHorizontalDisplayed textAttribute,
      LinesBottom = IsBottomHorizontalDisplayed textAttribute,
      LinesLeft = IsLeftVerticalDisplayed textAttribute,
      LinesRight = IsRightVerticalDisplayed textAttribute\<rparr>"

definition Renderer_PaintBufferOutputGridLineHelper ::
  "IRenderData \<Rightarrow> nat \<Rightarrow> IRenderEngine \<Rightarrow> TextAttribute \<Rightarrow> nat \<Rightarrow> COORD \<Rightarrow> event list" where
  "Renderer_PaintBufferOutputGridLineHelper d i pEngine textAttribute cchLine coordTarget =
     logged i pEngine
       (PaintBufferGridLines (s_GetGridlines textAttribute) (GetForegroundColor d textAttribute) cchLine coordTarget)"

text \<open>
  One pass through the body of the \<^verbatim>\<open>do\<close> loop: the column queried
  (\<^verbatim>\<open>iFirstAttr + cchWritten\<close>), the attribute found there, the segment length
  \<^verbatim>\<open>cchSegment\<close>, and the values of \<^verbatim>\<open>cchWritten\<close>, \<^verbatim>\<open>coordOffset\<close>,
  \<^verbatim>\<open>pwsSegment\<close> and \<^verbatim>\<open>itSegment\<close> at the start of the pass.
\<close>

record color_run =
  runColumn :: nat
  runAttr :: TextAttribute
  runLength :: nat
  runWritten :: nat
  runOffset :: COORD
  runText :: PCWCHAR
  runCells :: "CharRowCell list"

text \<open>
  The \<^verbatim>\<open>do ... while (cchWritten < cchLine && itSegment < itEnd)\<close> loop, as the list of
  its passes. A pass with \<^verbatim>\<open>cchSegment <= 0\<close> is the last one (the \<^verbatim>\<open>break\<close>).
\<close>

function ColorHelper_runs ::
  "ROW \<Rightarrow> nat \<Rightarrow> nat \<Rightarrow> nat \<Rightarrow> COORD \<Rightarrow> PCWCHAR \<Rightarrow> CharRowCell list \<Rightarrow> color_run list" where
  "ColorHelper_runs Row cchLine iFirstAttr cchWritten coordOffset pwsSeg itSegment =
     (let attr = fst (GetAttrByColumn Row (iFirstAttr + cchWritten));
          cAttrApplies = snd (GetAttrByColumn Row (iFirstAttr + cchWritten));
          cchSegment = min (cchLine - cchWritten) cAttrApplies;
          run = \<lparr>runColumn = iFirstAttr + cchWritten, runAttr = attr, runLength = cchSegment,
                 runWritten = cchWritten, runOffset = coordOffset, runText = pwsSeg, runCells = itSegment\<rparr>
      in if cchSegment \<le> 0 then [run]
         else if cchWritten + cchSegment < cchLine \<and> drop cchSegment itSegment \<noteq> []
         then run # ColorHelper_runs Row cchLine iFirstAttr (cchWritten + cchSegment)
                      (coordOffset\<lparr>X := X coordOffset + of_nat cchSegment\<rparr>)
                      (\<lambda>k. pwsSeg (cchSegment + k)) (drop cchSegment itSegment)
         else [run])"
  by pat_completeness auto
termination
  by (relation "measure (\<lambda>(Row, cchLine, iFirstAttr, cchWritten, coordOffset, pwsSeg, itSegment). cchLine - cchWritten)")
    auto

text \<open>What one pass does to the engine.\<close>

definition ColorHelper_paint ::
  "Platform \<Rightarrow> IRenderData \<Rightarrow> nat \<Rightarrow> IRenderEngine \<Rightarrow> bool \<Rightarrow> color_run \<Rightarrow> event list" where
  "ColorHelper_paint pf d i pEngine lineWrapped run =
     (let brushes = Renderer_UpdateDrawingBrushes d i pEngine (runAttr run) False;
          dbcs = Renderer_PaintBufferOutputDoubleByteHelper pf i pEngine (runText run) (runCells run)
                   (runLength run) (runOffset run) lineWrapped
      in snd brushes @ LOG_IF_FAILED (fst brushes) @
         (if runLength run \<le> 0 then []
          else snd dbcs @ LOG_IF_FAILED (fst dbcs) @
               (if IsGridLineDrawingAllowed d
                then Renderer_PaintBufferOutputGridLineHelper d i pEngine (runAttr run) (runLength run) (runOffset run)
                else [])))"

definition Renderer_PaintBufferOutputColorHelper ::
  "Platform \<Rightarrow> IRenderData \<Rightarrow> nat \<Rightarrow> IRenderEngine \<Rightarrow> ROW \<Rightarrow> PCWCHAR \<Rightarrow> CharRowCell list \<Rightarrow> nat \<Rightarrow> nat
     \<Rightarrow> COORD \<Rightarrow> bool \<Rightarrow> event list" where
  "Renderer_PaintBufferOutputColorHelper pf d i pEngine Row pwsLine it cchLine iFirstAttr coordTarget lineWrapped =
     concat (map (ColorHelper_paint pf d i pEngine lineWrapped)
       (ColorHelper_runs Row cchLine iFirstAttr 0 coordTarget pwsLine it))"

text \<open>The segments the loop emits: its passes with a positive length.\<close>

definition emitted_segments :: "ROW \<Rightarrow> CharRowCell list \<Rightarrow> nat \<Rightarrow> nat \<Rightarrow> COORD \<Rightarrow> PCWCHAR \<Rightarrow> color_run list" where
  "emitted_segments Row it cchLine iFirstAttr coordTarget pwsLine =
     filter (\<lambda>run. 0 < runLength run) (ColorHelper_runs Row cchLine iFirstAttr 0 coordTarget pwsLine it)"

text \<open>
  For stating where the attribute runs of a row lie: a row has the runs \<open>runs\<close> (each an
  attribute and a length) from column \<open>col\<close> on when a query at a column inside a run
  answers that run's attribute and the distance to the run's end.
\<close>

fun row_has_runs :: "ROW \<Rightarrow> nat \<Rightarrow> (TextAttribute \<times> nat) list \<Rightarrow> bool" where
  "row_has_runs Row col [] = True"
| "row_has_runs Row col ((a, len) # runs) =
     (0 < len \<and> list_all (\<lambda>k. GetAttrByColumn Row (col + k) = (a, len - k)) [0..<len]
      \<and> row_has_runs Row (col + len) runs)"

text \<open>
  The passes the loop makes over a row whose runs are \<open>rs\<close>, written out run by run,
  and what it means for the column cursor to advance by the length of each segment:
  each segment starts, in the row and on the screen, where the one before it ended.
\<close>

fun runs_from :: "nat \<Rightarrow> COORD \<Rightarrow> PCWCHAR \<Rightarrow> CharRowCell list \<Rightarrow> (TextAttribute \<times> nat) list \<Rightarrow> color_run list" where
  "runs_from col off p cells [] = []"
| "runs_from col off p cells ((a, len) # rs) =
     \<lparr>runColumn = col, runAttr = a, runLength = len, runWritten = col, runOffset = off,
      runText = p, runCells = cells\<rparr>
     # runs_from (col + len) (off\<lparr>X := X off + of_nat len\<rparr>) (\<lambda>k. p (len + k)) (drop len cells) rs"

fun cursor_advances :: "nat \<Rightarrow> COORD \<Rightarrow> color_run list \<Rightarrow> bool" where
  "cursor_advances col off [] = True"
| "cursor_advances col off (r # rs) =
     (runColumn r = col \<and> runOffset r = off
      \<and> cursor_advances (col + runLength r) (off\<lparr>X := X off + of_nat (runLength r)\<rparr>) rs)"

subsection \<open>The layers of a frame\<close>

definition Renderer_PaintBufferOutputRasterFontHelper ::
  "Platform \<Rightarrow> IRenderData \<Rightarrow> nat \<Rightarrow> IRenderEngine \<Rightarrow> ROW \<Rightarrow> PCWCHAR \<Rightarrow> CharRowCell list \<Rightarrow> nat \<Rightarrow> nat
     \<Rightarrow> COORD \<Rightarrow> bool \<Rightarrow> event list" where
  "Renderer_PaintBufferOutputRasterFontHelper pf d i pEngine Row pwsLine it cchLine iFirstAttr coordTarget lineWrapped =
     (let pwsData =
            (if \<not> IsTrueTypeFont (GetFontInfo d)
             then (case RasterConvert pf (GetCodePage (GetFontInfo d)) pwsLine cchLine of
                     None \<Rightarrow> pwsLine
                   | Some pwsConvert \<Rightarrow> pwsConvert)
             else pwsLine)
      in Renderer_PaintBufferOutputColorHelper pf d i pEngine Row pwsData it cchLine iFirstAttr coordTarget lineWrapped)"

definition paint_rows ::
  "Platform \<Rightarrow> IRenderData \<Rightarrow> nat \<Rightarrow> IRenderEngine \<Rightarrow> (paint_row \<Rightarrow> bool) \<Rightarrow> paint_row list \<times> HRESULT option
     \<Rightarrow> event list" where
  "paint_rows pf d i pEngine wrapped rows =
     concat (map (\<lambda>rw. Renderer_PaintBufferOutputRasterFontHelper pf d i pEngine (row_Row rw) (row_pwsLine rw)
                          (row_it rw) (row_cchLine rw) (row_iFirstAttr rw) (row_coordTarget rw) (wrapped rw))
               (fst rows))
     @ (case snd rows of None \<Rightarrow> [] | Some hr \<Rightarrow> [Log hr])"

definition Renderer_PaintBufferOutput :: "Platform \<Rightarrow> IRenderData \<Rightarrow> nat \<Rightarrow> IRenderEngine \<Rightarrow> event list" where
  "Renderer_PaintBufferOutput pf d i pEngine =
     Call i GetDirtyRectInChars
     # paint_rows pf d i pEngine row_lineWrapped (BufferRows d (DirtyRectInChars pEngine))"

definition Renderer_PaintIme ::
  "Platform \<Rightarrow> IRenderData \<Rightarrow> nat \<Rightarrow> IRenderEngine \<Rightarrow> ConversionAreaInfo \<Rightarrow> event list" where
  "Renderer_PaintIme pf d i pEngine AreaInfo =
     (if \<not> IsHidden AreaInfo
      then Call i GetDirtyRectInChars
           # paint_rows pf d i pEngine (\<lambda>rw. False) (AreaRows AreaInfo (DirtyRectInChars pEngine))
      else [])"

definition Renderer_PaintImeCompositionString ::
  "Platform \<Rightarrow> IRenderData \<Rightarrow> nat \<Rightarrow> IRenderEngine \<Rightarrow> event list" where
  "Renderer_PaintImeCompositionString pf d i pEngine =
     concat (map (\<lambda>AreaInfo. case GetImeCompositionStringBuffer AreaInfo of
                                Some hr \<Rightarrow> [Log hr]
                              | None \<Rightarrow> Renderer_PaintIme pf d i pEngine AreaInfo)
               (ConvAreaCompStr d))"

definition Renderer_GetSelectionRects :: "IRenderData \<Rightarrow> HRESULT + SMALL_RECT list" where
  "Renderer_GetSelectionRects d =
     (case GetSelectionRects d of
        Inl hr \<Rightarrow> Inl hr
      | Inr rects \<Rightarrow>
          Inr (map (\<lambda>rect. let rect' = ConvertRectToOrigin (GetViewport d) rect
                           in rect'\<lparr>Right := Right rect' + 1, Bottom := Bottom rect' + 1\<rparr>) rects))"

definition Renderer_PaintSelection :: "Platform \<Rightarrow> IRenderData \<Rightarrow> nat \<Rightarrow> IRenderEngine \<Rightarrow> event list" where
  "Renderer_PaintSelection pf d i pEngine =
     Call i GetDirtyRectInChars #
     (let dirtyView = FromInclusive pf (DirtyRectInChars pEngine)
      in case Renderer_GetSelectionRects d of
           Inl hr \<Rightarrow> [Log hr]
         | Inr rectangles \<Rightarrow>
             concat (map (\<lambda>rect. if fst (TrimToViewport dirtyView rect)
                                 then logged i pEngine (PaintSelection (snd (TrimToViewport dirtyView rect)))
                                 else []) rectangles))"

definition Renderer_PaintCursor :: "Platform \<Rightarrow> IRenderData \<Rightarrow> nat \<Rightarrow> IRenderEngine \<Rightarrow> event list" where
  "Renderer_PaintCursor pf d i pEngine =
     (if IsCursorVisible d
      then let coordCursor = ConvertToOrigin (GetViewport d) (GetCursorPosition d);
               cursorColor = GetCursorColor d;
               useColor = (cursorColor \<noteq> INVALID_COLOR pf)
           in logged i pEngine
                (PaintCursor coordCursor (GetCursorHeight d) (IsCursorDoubleWidth d) (GetCursorStyle d)
                   useColor cursorColor)
      else [])"

text \<open>The four layers painted between the background and the title; none returns a result.\<close>

definition paint_layers :: "Platform \<Rightarrow> IRenderData \<Rightarrow> nat \<Rightarrow> IRenderEngine \<Rightarrow> event list" where
  "paint_layers pf d i pEngine =
     Renderer_PaintBufferOutput pf d i pEngine
     @ Renderer_PaintImeCompositionString pf d i pEngine
     @ Renderer_PaintSelection pf d i pEngine
     @ Renderer_PaintCursor pf d i pEngine"

subsection \<open>One frame for one engine\<close>

text \<open>
  A loop over \<^verbatim>\<open>_rgpEngines\<close> is a recursion over the engines paired with their
  indices, \<open>enumerate 0 (rgpEngines r)\<close>.
\<close>

definition Renderer_NotifyPaintFrame :: "event list" where
  "Renderer_NotifyPaintFrame = [NotifyPaint]"

definition Renderer_CheckViewportAndScroll :: "Renderer \<Rightarrow> bool \<times> Renderer \<times> event list" where
  "Renderer_CheckViewportAndScroll r =
     (let srOldViewport = srViewportPrevious r;
          srNewViewport = ToInclusive (GetViewport (pData r));
          coordDelta = \<lparr>X = Left srOldViewport - Left srNewViewport,
                        Y = Top srOldViewport - Top srNewViewport\<rparr>
      in (X coordDelta \<noteq> 0 \<or> Y coordDelta \<noteq> 0,
          r\<lparr>srViewportPrevious := srNewViewport\<rparr>,
          concat (map (\<lambda>(i, pEngine). logged i pEngine (UpdateViewport srNewViewport)
                                        @ logged i pEngine (InvalidateScroll coordDelta))
                    (enumerate 0 (rgpEngines r)))))"

definition Renderer_TriggerScroll :: "Renderer \<Rightarrow> Renderer \<times> event list" where
  "Renderer_TriggerScroll r =
     (let check = Renderer_CheckViewportAndScroll r
      in (fst (snd check), snd (snd check) @ (if fst check then Renderer_NotifyPaintFrame else [])))"

text \<open>
  The statements of \<^verbatim>\<open>_PaintFrameForEngine\<close> between the creation of the
  \<^verbatim>\<open>endPaint\<close> guard and \<^verbatim>\<open>endPaint.reset()\<close>: the result is the \<^verbatim>\<open>HRESULT\<close> of
  the last step reached, and a failed one is what \<^verbatim>\<open>RETURN_IF_FAILED\<close> returns from
  there.
\<close>

definition PaintFrame_guarded :: "Platform \<Rightarrow> IRenderData \<Rightarrow> nat \<Rightarrow> IRenderEngine \<Rightarrow> HRESULT \<times> event list" where
  "PaintFrame_guarded pf d i pEngine =
     (let brushes = Renderer_UpdateDrawingBrushes d i pEngine (GetDefaultBrushColors d) True;
          hrScroll = Returns pEngine ScrollFrame;
          hrBackground = Returns pEngine PaintBackground;
          hrTitle = Returns pEngine (UpdateTitle (GetConsoleTitle d))
      in if FAILED (fst brushes) then (fst brushes, snd brushes)
         else if FAILED hrScroll then (hrScroll, snd brushes @ [Call i ScrollFrame])
         else if FAILED hrBackground
         then (hrBackground, snd brushes @ [Call i ScrollFrame, Call i PaintBackground])
         else (hrTitle,
               snd brushes @ [Call i ScrollFrame, Call i PaintBackground]
               @ paint_layers pf d i pEngine
               @ [Call i (UpdateTitle (GetConsoleTitle d))]))"

text \<open>
  \<^verbatim>\<open>_PaintFrameForEngine\<close>. The two scope guards run where the function returns, the
  later one first: \<^verbatim>\<open>EndPaint\<close> (its failure logged), then \<^verbatim>\<open>UnlockConsole\<close>.
  \<^verbatim>\<open>FAIL_FAST_IF_NULL\<close> does not fire: \<^verbatim>\<open>AddRenderEngine\<close> refuses a null engine,
  so \<^verbatim>\<open>_rgpEngines\<close> holds none.
\<close>

definition Renderer_PaintFrameForEngine ::
  "Platform \<Rightarrow> Renderer \<Rightarrow> nat \<Rightarrow> IRenderEngine \<Rightarrow> HRESULT \<times> Renderer \<times> event list" where
  "Renderer_PaintFrameForEngine pf r i pEngine =
     (let check = Renderer_CheckViewportAndScroll r;
          r' = fst (snd check);
          prologue = LockConsole # snd (snd check) @ [Call i StartPaint];
          hr = Returns pEngine StartPaint;
          body = PaintFrame_guarded pf (pData r') i pEngine;
          endPaint = logged i pEngine EndPaint;
          hrPresent = Returns pEngine Present
      in if FAILED hr then (hr, r', prologue @ [UnlockConsole])
         else if S_FALSE = hr then (S_OK, r', prologue @ [UnlockConsole])
         else if FAILED (fst body) then (fst body, r', prologue @ snd body @ endPaint @ [UnlockConsole])
         else (if FAILED hrPresent then hrPresent else S_OK, r',
               prologue @ snd body @ endPaint @ [UnlockConsole] @ [Call i Present]))"

subsection \<open>Painting all engines, and teardown\<close>

fun PaintFrame_engines :: "Platform \<Rightarrow> Renderer \<Rightarrow> (nat \<times> IRenderEngine) list \<Rightarrow> Renderer \<times> event list" where
  "PaintFrame_engines pf r [] = (r, [])"
| "PaintFrame_engines pf r ((i, pEngine) # engines) =
     (let frame = Renderer_PaintFrameForEngine pf r i pEngine;
          rest = PaintFrame_engines pf (fst (snd frame)) engines
      in (fst rest, snd (snd frame) @ LOG_IF_FAILED (fst frame) @ snd rest))"

definition Renderer_PaintFrame :: "Platform \<Rightarrow> Renderer \<Rightarrow> HRESULT \<times> Renderer \<times> event list" where
  "Renderer_PaintFrame pf r =
     (let painted = PaintFrame_engines pf r (enumerate 0 (rgpEngines r))
      in (S_OK, fst painted, snd painted))"

fun TriggerTeardown_engines :: "Platform \<Rightarrow> Renderer \<Rightarrow> (nat \<times> IRenderEngine) list \<Rightarrow> Renderer \<times> event list" where
  "TriggerTeardown_engines pf r [] = (r, [])"
| "TriggerTeardown_engines pf r ((i, pEngine) # engines) =
     (let hr = Returns pEngine PrepareForTeardown;
          fEngineRequestsRepaint = RequestsRepaint pEngine;
          frame = Renderer_PaintFrameForEngine pf r i pEngine
      in if SUCCEEDED hr \<and> fEngineRequestsRepaint
         then let rest = TriggerTeardown_engines pf (fst (snd frame)) engines
              in (fst rest,
                  logged i pEngine PrepareForTeardown @ snd (snd frame) @ LOG_IF_FAILED (fst frame) @ snd rest)
         else let rest = TriggerTeardown_engines pf r engines
              in (fst rest, logged i pEngine PrepareForTeardown @ snd rest))"

definition Renderer_TriggerTeardown :: "Platform \<Rightarrow> Renderer \<Rightarrow> Renderer \<times> event list" where
  "Renderer_TriggerTeardown pf r =
     (let r' = r\<lparr>pThread := RenderThread_WaitForPaintCompletionAndDisable INFINITE (pThread r)\<rparr>;
          walked = TriggerTeardown_engines pf r' (enumerate 0 (rgpEngines r'))
      in (fst walked, WaitForPaintCompletionAndDisable INFINITE # snd walked))"

subsection \<open>Selection and cursor triggers\<close>

definition Renderer_TriggerSelection :: "Renderer \<Rightarrow> Renderer \<times> event list" where
  "Renderer_TriggerSelection r =
     (case Renderer_GetSelectionRects (pData r) of
        Inl hr \<Rightarrow> (r, [Log hr])
      | Inr rects \<Rightarrow>
          (r\<lparr>previousSelection := rects\<rparr>,
           concat (map (\<lambda>(i, pEngine). logged i pEngine (InvalidateSelection (previousSelection r))
                                         @ logged i pEngine (InvalidateSelection rects))
                     (enumerate 0 (rgpEngines r)))
           @ Renderer_NotifyPaintFrame))"

text \<open>
  The loop of \<^verbatim>\<open>TriggerRedrawCursor\<close>: \<^verbatim>\<open>updateCoord\<close> is declared before the loop,
  so what one pass does to it is what the next pass starts from.
\<close>

fun TriggerRedrawCursor_engines :: "IRenderData \<Rightarrow> COORD \<Rightarrow> (nat \<times> IRenderEngine) list \<Rightarrow> event list" where
  "TriggerRedrawCursor_engines d updateCoord [] = []"
| "TriggerRedrawCursor_engines d updateCoord ((i, pEngine) # engines) =
     logged i pEngine (InvalidateCursor updateCoord)
     @ (if IsCursorDoubleWidth d
        then logged i pEngine (InvalidateCursor (updateCoord\<lparr>X := X updateCoord + 1\<rparr>))
             @ TriggerRedrawCursor_engines d (updateCoord\<lparr>X := X updateCoord + 1\<rparr>) engines
        else TriggerRedrawCursor_engines d updateCoord engines)"

definition Renderer_TriggerRedrawCursor :: "Renderer \<Rightarrow> COORD \<Rightarrow> event list" where
  "Renderer_TriggerRedrawCursor r pcoord =
     (let view = GetViewport (pData r)
      in if IsInBounds view pcoord
         then TriggerRedrawCursor_engines (pData r) (ConvertToOrigin view pcoord) (enumerate 0 (rgpEngines r))
              @ Renderer_NotifyPaintFrame
         else [])"

subsection \<open>Font queries\<close>

text \<open>
  \<^verbatim>\<open>FAIL_FAST_IF\<close> ends the process; a query that gets past it returns its value and
  the events it caused.
\<close>

datatype 'a outcome = FailFast | Return 'a

fun GetProposedFont_engines ::
  "int \<Rightarrow> FontInfoDesired \<Rightarrow> FontInfo \<Rightarrow> (nat \<times> IRenderEngine) list \<Rightarrow> (HRESULT \<times> FontInfo) \<times> event list" where
  "GetProposedFont_engines iDpi desired font [] = ((E_FAIL, font), [])"
| "GetProposedFont_engines iDpi desired font ((i, pEngine) # engines) =
     (let hr = Returns pEngine (GetProposedFont desired iDpi);
          font' = ProposedFont pEngine desired iDpi font;
          rest = GetProposedFont_engines iDpi desired font' engines
      in if hr = S_OK then ((hr, font'), logged i pEngine (GetProposedFont desired iDpi))
         else (fst rest, logged i pEngine (GetProposedFont desired iDpi) @ snd rest))"

definition Renderer_GetProposedFont ::
  "Renderer \<Rightarrow> int \<Rightarrow> FontInfoDesired \<Rightarrow> FontInfo \<Rightarrow> ((HRESULT \<times> FontInfo) \<times> event list) outcome" where
  "Renderer_GetProposedFont r iDpi desired font =
     (if length (rgpEngines r) < 1 then Return ((E_FAIL, font), [])
      else if \<not> length (rgpEngines r) \<le> 2 then FailFast
      else Return (GetProposedFont_engines iDpi desired font (enumerate 0 (rgpEngines r))))"

fun GetFontSize_engines :: "COORD \<Rightarrow> (nat \<times> IRenderEngine) list \<Rightarrow> COORD \<times> event list" where
  "GetFontSize_engines fontSize [] = (fontSize, [])"
| "GetFontSize_engines fontSize ((i, pEngine) # engines) =
     (let hr = Returns pEngine GetFontSize;
          fontSize' = FontSize pEngine fontSize;
          rest = GetFontSize_engines fontSize' engines
      in if hr = S_OK then (fontSize', logged i pEngine GetFontSize)
         else (fst rest, logged i pEngine GetFontSize @ snd rest))"

definition Renderer_GetFontSize :: "Renderer \<Rightarrow> (COORD \<times> event list) outcome" where
  "Renderer_GetFontSize r =
     (if \<not> length (rgpEngines r) \<le> 2 then FailFast
      else Return (GetFontSize_engines \<lparr>X = 1, Y = 1\<rparr> (enumerate 0 (rgpEngines r))))"

fun IsGlyphWideByFont_engines :: "wchar list \<Rightarrow> bool \<Rightarrow> (nat \<times> IRenderEngine) list \<Rightarrow> bool \<times> event list" where
  "IsGlyphWideByFont_engines glyph fIsFullWidth [] = (fIsFullWidth, [])"
| "IsGlyphWideByFont_engines glyph fIsFullWidth ((i, pEngine) # engines) =
     (let hr = Returns pEngine (IsGlyphWideByFont glyph);
          fIsFullWidth' = GlyphIsWide pEngine glyph fIsFullWidth;
          rest = IsGlyphWideByFont_engines glyph fIsFullWidth' engines
      in if hr = S_OK then (fIsFullWidth', logged i pEngine (IsGlyphWideByFont glyph))
         else (fst rest, logged i pEngine (IsGlyphWideByFont glyph) @ snd rest))"

definition Renderer_IsGlyphWideByFont :: "Renderer \<Rightarrow> wchar list \<Rightarrow> (bool \<times> event list) outcome" where
  "Renderer_IsGlyphWideByFont r glyph =
     (if \<not> length (rgpEngines r) \<le> 2 then FailFast
      else Return (IsGlyphWideByFont_engines glyph False (enumerate 0 (rgpEngines r))))"

subsection \<open>Reading a list of events\<close>

text \<open>The calls one engine receives, in order.\<close>

fun calls_to :: "nat \<Rightarrow> event list \<Rightarrow> call list" where
  "calls_to i [] = []"
| "calls_to i (Call j c # evs) = (if j = i then c # calls_to i evs else calls_to i evs)"
| "calls_to i (ev # evs) = calls_to i evs"

text \<open>The rectangles an engine is asked to invalidate as selection.\<close>

fun invalidated_selection :: "call list \<Rightarrow> SMALL_RECT list" where
  "invalidated_selection [] = []"
| "invalidated_selection (InvalidateSelection rects # cs) = rects @ invalidated_selection cs"
| "invalidated_selection (c # cs) = invalidated_selection cs"

text \<open>
  The calls made while a frame is painted, between \<^verbatim>\<open>StartPaint\<close> and
  \<^verbatim>\<open>EndPaint\<close>: the drawing calls and the query for the dirty rectangle.
\<close>

fun drawing_call :: "call \<Rightarrow> bool" where
  "drawing_call (UpdateDrawingBrushes fg bg legacy bold bkg) = True"
| "drawing_call (PaintBufferLine text widths cch target trim wrapped) = True"
| "drawing_call (PaintBufferGridLines lines color cch target) = True"
| "drawing_call (PaintSelection rect) = True"
| "drawing_call (PaintCursor coord height wide style useColor color) = True"
| "drawing_call (UpdateTitle title) = True"
| "drawing_call ScrollFrame = True"
| "drawing_call PaintBackground = True"
| "drawing_call GetDirtyRectInChars = True"
| "drawing_call c = False"

fun drawing_event :: "nat \<Rightarrow> event \<Rightarrow> bool" where
  "drawing_event i (Call j c) = (j = i \<and> drawing_call c)"
| "drawing_event i (Log hr) = True"
| "drawing_event i ev = False"

text \<open>The events in which an engine is handed text to draw.\<close>

fun text_draw :: "event \<Rightarrow> bool" where
  "text_draw (Call j (PaintBufferLine text widths cch target trim wrapped)) = True"
| "text_draw ev = False"

text \<open>
  The lock discipline of a list of events, read from a state in which the console lock
  is held \<open>depth\<close> times: every engine call but \<^verbatim>\<open>Present\<close> is made with the lock
  held, \<^verbatim>\<open>Present\<close> is made with the lock not held, and the lock is only released
  when held.
\<close>

fun lock_ok :: "nat \<Rightarrow> event list \<Rightarrow> bool" where
  "lock_ok depth [] = True"
| "lock_ok depth (LockConsole # evs) = lock_ok (Suc depth) evs"
| "lock_ok depth (UnlockConsole # evs) = (0 < depth \<and> lock_ok (depth - 1) evs)"
| "lock_ok depth (Call i Present # evs) = (depth = 0 \<and> lock_ok depth evs)"
| "lock_ok depth (Call i c # evs) = (0 < depth \<and> lock_ok depth evs)"
| "lock_ok depth (ev # evs) = lock_ok depth evs"

text \<open>
  The events inside a frame: engine calls other than \<^verbatim>\<open>StartPaint\<close>, \<^verbatim>\<open>Present\<close>
  and \<^verbatim>\<open>PrepareForTeardown\<close>, and log lines.
\<close>

fun frame_internal :: "event \<Rightarrow> bool" where
  "frame_internal (Call j c) = (c \<noteq> StartPaint \<and> c \<noteq> Present \<and> c \<noteq> PrepareForTeardown)"
| "frame_internal (Log hr) = True"
| "frame_internal ev = False"

fun starts_frame :: "event \<Rightarrow> bool" where
  "starts_frame (Call i StartPaint) = True"
| "starts_frame ev = False"

text \<open>
  The renderer after a scroll check, and what \<^verbatim>\<open>PaintFrame\<close> adds to the events for
  one engine: its frame, and the log line if the frame failed.
\<close>

definition after_check :: "Renderer \<Rightarrow> Renderer" where
  "after_check r = r\<lparr>srViewportPrevious := ToInclusive (GetViewport (pData r))\<rparr>"

definition frame_block :: "Platform \<Rightarrow> Renderer \<Rightarrow> nat \<Rightarrow> IRenderEngine \<Rightarrow> event list" where
  "frame_block pf r i pEngine =
     snd (snd (Renderer_PaintFrameForEngine pf r i pEngine))
     @ LOG_IF_FAILED (fst (Renderer_PaintFrameForEngine pf r i pEngine))"

text \<open>
  An engine's own answers let its frame reach \<^verbatim>\<open>Present\<close>: \<^verbatim>\<open>StartPaint\<close> neither
  fails nor answers \<^verbatim>\<open>S_FALSE\<close>, and no step under the \<^verbatim>\<open>endPaint\<close> guard fails.
\<close>

definition frame_completes :: "Platform \<Rightarrow> IRenderData \<Rightarrow> nat \<Rightarrow> IRenderEngine \<Rightarrow> bool" where
  "frame_completes pf d i pEngine \<longleftrightarrow>
     \<not> FAILED (Returns pEngine StartPaint) \<and> Returns pEngine StartPaint \<noteq> S_FALSE
     \<and> \<not> FAILED (fst (PaintFrame_guarded pf d i pEngine))"

text \<open>
  An engine asks for a final repaint at teardown when its \<^verbatim>\<open>PrepareForTeardown\<close>
  succeeds and sets the flag.
\<close>

definition wants_final_repaint :: "IRenderEngine \<Rightarrow> bool" where
  "wants_final_repaint pEngine \<longleftrightarrow> SUCCEEDED (Returns pEngine PrepareForTeardown) \<and> RequestsRepaint pEngine"

text \<open>
  The engines a font query asks: those before the first one that answers \<^verbatim>\<open>S_OK\<close>,
  and that one.
\<close>

definition engines_asked :: "call \<Rightarrow> IRenderEngine list \<Rightarrow> IRenderEngine list" where
  "engines_asked c engines =
     takeWhile (\<lambda>pEngine. Returns pEngine c \<noteq> S_OK) engines
     @ take 1 (dropWhile (\<lambda>pEngine. Returns pEngine c \<noteq> S_OK) engines)"

definition returned :: "('a \<times> event list) outcome \<Rightarrow> 'a outcome" where
  "returned result = map_outcome fst result"

definition events_of :: "('a \<times> event list) outcome \<Rightarrow> event list" where
  "events_of result = (case result of FailFast \<Rightarrow> [] | Return v \<Rightarrow> snd v)"

subsection \<open>Sample collaborators\<close>

text \<open>
  Concrete collaborators for evaluating the renderer: a viewport that translates by its
  top left corner and trims nothing, a platform on which every allocation succeeds and
  no raster conversion takes place, and an engine that answers every call with the same
  \<^verbatim>\<open>HRESULT\<close> and leaves its out-parameters alone.
\<close>

definition sample_viewport :: "SMALL_RECT \<Rightarrow> Viewport" where
  "sample_viewport sr =
     \<lparr>ToInclusive = sr,
      IsInBounds = (\<lambda>c. sint (Left sr) \<le> sint (X c) \<and> sint (X c) \<le> sint (Right sr)
                        \<and> sint (Top sr) \<le> sint (Y c) \<and> sint (Y c) \<le> sint (Bottom sr)),
      ConvertToOrigin = (\<lambda>c. \<lparr>X = X c - Left sr, Y = Y c - Top sr\<rparr>),
      ConvertRectToOrigin = (\<lambda>r. \<lparr>Left = Left r - Left sr, Top = Top r - Top sr,
                                     Right = Right r - Left sr, Bottom = Bottom r - Top sr\<rparr>),
      TrimToViewport = (\<lambda>r. (True, r))\<rparr>"

definition sample_platform :: Platform where
  "sample_platform =
     \<lparr>AllocWchar = (\<lambda>n. True), AllocUchar = (\<lambda>n. True), RasterConvert = (\<lambda>cp pws cch. None),
      FromInclusive = sample_viewport, INVALID_COLOR = 0xFFFFFFFF\<rparr>"

definition sample_engine :: "HRESULT \<Rightarrow> IRenderEngine" where
  "sample_engine hr =
     \<lparr>Returns = (\<lambda>c. hr),
      DirtyRectInChars = \<lparr>Left = 0, Top = 0, Right = 79, Bottom = 23\<rparr>,
      RequestsRepaint = False,
      ProposedFont = (\<lambda>desired dpi font. font),
      FontSize = (\<lambda>size. size),
      GlyphIsWide = (\<lambda>glyph wide. wide)\<rparr>"

text \<open>
  An attribute with a given legacy word, a row of five columns in two runs, console data
  with an 80 by 24 viewport at the origin and nothing to draw, and a renderer over it
  whose previous viewport is the current one.
\<close>

definition sample_attr :: "WORD \<Rightarrow> TextAttribute" where
  "sample_attr w = \<lparr>GetLegacyAttributes = w, IsBold = False, IsTopHorizontalDisplayed = False,
     IsBottomHorizontalDisplayed = False, IsLeftVerticalDisplayed = False, IsRightVerticalDisplayed = False\<rparr>"

definition sample_row :: ROW where
  "sample_row = \<lparr>GetAttrByColumn = (\<lambda>c. if c < 2 then (sample_attr 7, 2 - c) else (sample_attr 12, 5 - c))\<rparr>"

definition sample_data :: IRenderData where
  "sample_data =
     \<lparr>GetViewport = sample_viewport \<lparr>Left = 0, Top = 0, Right = 79, Bottom = 23\<rparr>,
      GetSelectionRects = Inr [],
      GetDefaultBrushColors = sample_attr 7,
      GetForegroundColor = (\<lambda>a. 0xC0C0C0),
      GetBackgroundColor = (\<lambda>a. 0),
      GetConsoleTitle = [],
      GetFontInfo = \<lparr>IsTrueTypeFont = True, GetCodePage = 437\<rparr>,
      IsGridLineDrawingAllowed = False,
      IsCursorVisible = False,
      GetCursorPosition = \<lparr>X = 0, Y = 0\<rparr>,
      GetCursorHeight = 25,
      IsCursorDoubleWidth = False,
      GetCursorStyle = 0,
      GetCursorColor = 0xFFFFFFFF,
      BufferRows = (\<lambda>sr. ([], None)),
      ConvAreaCompStr = []\<rparr>"

definition sample_renderer :: "IRenderEngine list \<Rightarrow> Renderer" where
  "sample_renderer engines =
     \<lparr>pData = sample_data, pThread = Enabled, rgpEngines = engines,
      srViewportPrevious = \<lparr>Left = 0, Top = 0, Right = 79, Bottom = 23\<rparr>,
      previousSelection = []\<rparr>"

section \<open>Properties\<close>

text \<open>The definitions to unfold when the renderer is evaluated on the sample collaborators.\<close>

lemmas sample_defs =
  sample_renderer_def sample_data_def sample_engine_def sample_viewport_def sample_platform_def sample_attr_def

lemmas hresult_defs = FAILED_def SUCCEEDED_def S_OK_def S_FALSE_def E_FAIL_def E_OUTOFMEMORY_def

subsection \<open>Wide-glyph deduplication\<close>

lemma kept_cells_Nil: "kept_cells i [] = []"
  by (simp add: kept_cells_def)

lemma kept_cells_Cons:
  "kept_cells i (c # cs) =
     (if IsTrailing (DbcsAttr c) then kept_cells (Suc i) cs else (i, c) # kept_cells (Suc i) cs)"
  by (simp add: kept_cells_def)

lemma length_kept_cells_le: "length (kept_cells i cells) \<le> length cells"
  by (simp add: kept_cells_def) (metis length_enumerate length_filter_le)

text \<open>After the first cell the walk copies the cells that are not trailing, and nothing else.\<close>

lemma DoubleByte_walk_tail:
  "0 < iLine \<Longrightarrow>
   DoubleByte_walk pwsLine cchLine iLine cells s =
     s\<lparr>pwsSegment := pwsSegment s @ map (pwsLine \<circ> fst) (kept_cells iLine (take (cchLine - iLine) cells)),
       rgSegmentWidth := rgSegmentWidth s @ map (cell_width \<circ> snd) (kept_cells iLine (take (cchLine - iLine) cells))\<rparr>"
proof (induction cells arbitrary: iLine s)
  case Nil
  then show ?case by (simp add: kept_cells_Nil)
next
  case (Cons c cells)
  show ?case
  proof (cases "iLine < cchLine")
    case False
    then show ?thesis by (simp add: kept_cells_Nil)
  next
    case True
    then obtain d where d: "cchLine - iLine = Suc d" "cchLine - Suc iLine = d"
      by (cases "cchLine - iLine") auto
    from Cons.prems True show ?thesis
      by (simp add: Cons.IH d kept_cells_Cons DoubleByte_step_def cell_width_def)
  qed
qed

lemma SHORT_decrement: "- 32768 < sint (x :: SHORT) \<Longrightarrow> sint (x - 1) = sint x - 1"
proof -
  assume lo: "- 32768 < sint x"
  have hi: "sint x < 32768"
    using sint_lt [of x] by simp
  have "sint (x - 1) = signed_take_bit 15 (sint x - 1)"
    by (simp add: sint_word_ariths)
  also have "\<dots> = sint x - 1"
    using lo hi by (intro signed_take_bit_int_eq_self) simp_all
  finally show ?thesis .
qed

text \<open>
  C1. The run handed to the helper is the first \<open>cchLine\<close> cells from the iterator,
  \<open>c0 # rest\<close>. If both arrays can be allocated, the helper makes exactly one
  \<^verbatim>\<open>PaintBufferLine\<close> call (otherwise none). When \<open>c0\<close> is not a trailing cell, the text
  is the characters of the cells that are not trailing, in order and once each, a leading
  cell tagged with width 2 and a single cell with width 1, the target is the requested
  one and the trim flag is off. When \<open>c0\<close> is a trailing cell, its character comes first
  with width 2, the later trailing cells are dropped as before, the target is the
  requested one with its column decremented (one column to the left, unless the column
  is the least \<^verbatim>\<open>SHORT\<close>), and the trim flag is on.
\<close>

theorem wide_glyph_deduplication:
  assumes "take cchLine it = c0 # rest"
  shows "snd (Renderer_PaintBufferOutputDoubleByteHelper pf i pEngine pwsLine it cchLine coordTarget lineWrapped) =
     (if AllocWchar pf cchLine \<and> AllocUchar pf cchLine then
        [Call i (if IsTrailing (DbcsAttr c0)
           then PaintBufferLine (pwsLine 0 # map (pwsLine \<circ> fst) (kept_cells 1 rest))
                  (2 # map (cell_width \<circ> snd) (kept_cells 1 rest))
                  (Suc (length (kept_cells 1 rest)))
                  (coordTarget\<lparr>X := X coordTarget - 1\<rparr>) True lineWrapped
           else PaintBufferLine (map (pwsLine \<circ> fst) (kept_cells 0 (c0 # rest)))
                  (map (cell_width \<circ> snd) (kept_cells 0 (c0 # rest)))
                  (length (kept_cells 0 (c0 # rest)))
                  coordTarget False lineWrapped)]
      else [])
    \<and> (- 32768 < sint (X coordTarget) \<longrightarrow>
         sint (X (coordTarget\<lparr>X := X coordTarget - 1\<rparr>)) = sint (X coordTarget) - 1)"
proof -
  from assms obtain cells where it: "it = c0 # cells" and rest: "rest = take (cchLine - 1) cells" and pos: "0 < cchLine"
    by (cases it; cases cchLine) auto
  have len: "length rest < cchLine"
    using pos by (auto simp: rest)
  have k1: "length (kept_cells 1 rest) < cchLine"
    using length_kept_cells_le [of 1 rest] len by simp
  show ?thesis
    using pos k1
    by (simp add: Renderer_PaintBufferOutputDoubleByteHelper_def it rest DoubleByte_walk_tail
        DoubleByte_step_def kept_cells_Cons cell_width_def Let_def min_def SHORT_decrement)
qed

text \<open>
  The two cases of the round trip on a row that holds a wide glyph: drawn from its
  trailing cell, and drawn in full.
\<close>

theorem wide_glyph_deduplication_witness:
  "take 2 [\<lparr>CellChar = 0x3042, DbcsAttr = Trailing\<rparr>, \<lparr>CellChar = 0x63, DbcsAttr = Single\<rparr>]
     = \<lparr>CellChar = 0x3042, DbcsAttr = Trailing\<rparr> # [\<lparr>CellChar = 0x63, DbcsAttr = Single\<rparr>]
   \<and> snd (Renderer_PaintBufferOutputDoubleByteHelper sample_platform 0 (sample_engine S_OK) ((!) [0x3042, 0x63])
        [\<lparr>CellChar = 0x3042, DbcsAttr = Trailing\<rparr>, \<lparr>CellChar = 0x63, DbcsAttr = Single\<rparr>]
        2 \<lparr>X = 5, Y = 3\<rparr> False)
     = [Call 0 (PaintBufferLine [0x3042, 0x63] [2, 1] 2 \<lparr>X = 4, Y = 3\<rparr> True False)]
   \<and> sint (X \<lparr>X = 4 :: SHORT, Y = 3\<rparr>) = sint (X \<lparr>X = 5 :: SHORT, Y = 3\<rparr>) - 1
   \<and> take 2 [\<lparr>CellChar = 0x3042, DbcsAttr = Leading\<rparr>, \<lparr>CellChar = 0x3042, DbcsAttr = Trailing\<rparr>]
     = \<lparr>CellChar = 0x3042, DbcsAttr = Leading\<rparr> # [\<lparr>CellChar = 0x3042, DbcsAttr = Trailing\<rparr>]
   \<and> snd (Renderer_PaintBufferOutputDoubleByteHelper sample_platform 0 (sample_engine S_OK) ((!) [0x3042, 0x3042])
        [\<lparr>CellChar = 0x3042, DbcsAttr = Leading\<rparr>, \<lparr>CellChar = 0x3042, DbcsAttr = Trailing\<rparr>]
        2 \<lparr>X = 5, Y = 3\<rparr> False)
     = [Call 0 (PaintBufferLine [0x3042] [2] 1 \<lparr>X = 5, Y = 3\<rparr> False False)]"
  using wide_glyph_deduplication [of 2
      "[\<lparr>CellChar = 0x3042, DbcsAttr = Trailing\<rparr>, \<lparr>CellChar = 0x63, DbcsAttr = Single\<rparr>]"
      "\<lparr>CellChar = 0x3042, DbcsAttr = Trailing\<rparr>" "[\<lparr>CellChar = 0x63, DbcsAttr = Single\<rparr>]"
      sample_platform 0 "sample_engine S_OK" "(!) [0x3042, 0x63]" "\<lparr>X = 5, Y = 3\<rparr>" False]
    wide_glyph_deduplication [of 2
      "[\<lparr>CellChar = 0x3042, DbcsAttr = Leading\<rparr>, \<lparr>CellChar = 0x3042, DbcsAttr = Trailing\<rparr>]"
      "\<lparr>CellChar = 0x3042, DbcsAttr = Leading\<rparr>" "[\<lparr>CellChar = 0x3042, DbcsAttr = Trailing\<rparr>]"
      sample_platform 0 "sample_engine S_OK" "(!) [0x3042, 0x3042]" "\<lparr>X = 5, Y = 3\<rparr>" False]
  by (simp add: kept_cells_def cell_width_def IsTrailing_def IsLeading_def sample_platform_def)

subsection \<open>Attribute-run decoding\<close>

lemmas ColorHelper_runs_unfold = ColorHelper_runs.simps

declare ColorHelper_runs.simps [simp del]

lemma row_has_runs_pos: "row_has_runs Row col rs \<Longrightarrow> rs \<noteq> [] \<Longrightarrow> 0 < sum_list (map snd rs)"
  by (cases rs) auto

lemma row_has_runs_head: "row_has_runs Row col ((a, len) # rs) \<Longrightarrow> GetAttrByColumn Row col = (a, len)"
  by (auto simp: list_all_iff dest!: bspec [where x = 0])

lemma ColorHelper_runs_full:
  "rs \<noteq> [] \<Longrightarrow> row_has_runs Row col rs \<Longrightarrow> length cells = sum_list (map snd rs) \<Longrightarrow>
   ColorHelper_runs Row (col + sum_list (map snd rs)) 0 col off p cells = runs_from col off p cells rs"
proof (induction rs arbitrary: col off p cells)
  case Nil
  then show ?case by simp
next
  case (Cons r rs)
  obtain a len where r: "r = (a, len)" by (cases r)
  from Cons.prems r have hd: "GetAttrByColumn Row col = (a, len)"
    using row_has_runs_head [of Row col a len rs] by simp
  from Cons.prems r have len: "0 < len" and tl: "row_has_runs Row (col + len) rs"
    by auto
  show ?case
  proof (cases "rs = []")
    case True
    with hd len r show ?thesis
      by (subst ColorHelper_runs_unfold) (simp add: Let_def)
  next
    case False
    from row_has_runs_pos [OF tl False] have pos: "0 < sum_list (map snd rs)" .
    have IH: "ColorHelper_runs Row (col + len + sum_list (map snd rs)) 0 (col + len)
                (off\<lparr>X := X off + of_nat len\<rparr>) (\<lambda>k. p (len + k)) (drop len cells)
              = runs_from (col + len) (off\<lparr>X := X off + of_nat len\<rparr>) (\<lambda>k. p (len + k)) (drop len cells) rs"
      using Cons.prems r by (intro Cons.IH [OF False tl]) simp
    have "length cells = len + sum_list (map snd rs)"
      using Cons.prems r by simp
    with pos have "len < length cells"
      by linarith
    then have nonempty: "drop len cells \<noteq> []"
      by simp
    show ?thesis
      using hd len pos nonempty IH r
      by (subst ColorHelper_runs_unfold) (simp add: Let_def add.assoc)
  qed
qed

lemma runs_from_lengths: "list_all (\<lambda>r. 0 < snd r) rs \<Longrightarrow> filter (\<lambda>run. 0 < runLength run) (runs_from col off p cells rs) = runs_from col off p cells rs"
  by (induction rs arbitrary: col off p cells) auto

lemma row_has_runs_all_pos: "row_has_runs Row col rs \<Longrightarrow> list_all (\<lambda>r. 0 < snd r) rs"
  by (induction rs arbitrary: col) auto

lemma map_runLength_runs_from: "map runLength (runs_from col off p cells rs) = map snd rs"
  by (induction rs arbitrary: col off p cells) auto

lemma map_runAttr_runs_from: "map runAttr (runs_from col off p cells rs) = map fst rs"
  by (induction rs arbitrary: col off p cells) auto

lemma cursor_advances_runs_from: "cursor_advances col off (runs_from col off p cells rs)"
  by (induction rs arbitrary: col off p cells) auto

lemma emitted_segments_full:
  assumes "row_has_runs Row 0 rs" and "length it = sum_list (map snd rs)"
  shows "emitted_segments Row it (sum_list (map snd rs)) 0 coordTarget pwsLine = runs_from 0 coordTarget pwsLine it rs"
proof (cases "rs = []")
  case True
  then show ?thesis
    by (simp add: emitted_segments_def ColorHelper_runs_unfold [of _ 0] Let_def)
next
  case False
  from ColorHelper_runs_full [OF False assms, of coordTarget pwsLine]
  show ?thesis
    using runs_from_lengths [OF row_has_runs_all_pos [OF assms(1)]]
    by (simp add: emitted_segments_def)
qed

lemma runs_from_pos:
  "list_all (\<lambda>r. 0 < snd r) rs \<Longrightarrow> run \<in> set (runs_from col off p cells rs) \<Longrightarrow> 0 < runLength run"
  by (induction rs arbitrary: col off p cells) auto

lemma ColorHelper_paint_pos:
  "0 < runLength run \<Longrightarrow>
   ColorHelper_paint pf d i pEngine lineWrapped run =
     snd (Renderer_UpdateDrawingBrushes d i pEngine (runAttr run) False)
     @ LOG_IF_FAILED (fst (Renderer_UpdateDrawingBrushes d i pEngine (runAttr run) False))
     @ snd (Renderer_PaintBufferOutputDoubleByteHelper pf i pEngine (runText run) (runCells run)
              (runLength run) (runOffset run) lineWrapped)
     @ LOG_IF_FAILED (fst (Renderer_PaintBufferOutputDoubleByteHelper pf i pEngine (runText run) (runCells run)
              (runLength run) (runOffset run) lineWrapped))
     @ (if IsGridLineDrawingAllowed d
        then Renderer_PaintBufferOutputGridLineHelper d i pEngine (runAttr run) (runLength run) (runOffset run)
        else [])"
  by (simp add: ColorHelper_paint_def Let_def)

lemma ColorHelper_events_full:
  assumes "rs \<noteq> []" and "row_has_runs Row 0 rs" and "length it = sum_list (map snd rs)"
  shows "Renderer_PaintBufferOutputColorHelper pf d i pEngine Row pwsLine it (sum_list (map snd rs)) 0 coordTarget lineWrapped
         = concat (map (\<lambda>run.
             snd (Renderer_UpdateDrawingBrushes d i pEngine (runAttr run) False)
             @ LOG_IF_FAILED (fst (Renderer_UpdateDrawingBrushes d i pEngine (runAttr run) False))
             @ snd (Renderer_PaintBufferOutputDoubleByteHelper pf i pEngine (runText run) (runCells run)
                      (runLength run) (runOffset run) lineWrapped)
             @ LOG_IF_FAILED (fst (Renderer_PaintBufferOutputDoubleByteHelper pf i pEngine (runText run) (runCells run)
                      (runLength run) (runOffset run) lineWrapped))
             @ (if IsGridLineDrawingAllowed d
                then Renderer_PaintBufferOutputGridLineHelper d i pEngine (runAttr run) (runLength run) (runOffset run)
                else [])) (runs_from 0 coordTarget pwsLine it rs))"
proof -
  from ColorHelper_runs_full [OF assms, of coordTarget pwsLine]
  have runs: "ColorHelper_runs Row (sum_list (map snd rs)) 0 0 coordTarget pwsLine it = runs_from 0 coordTarget pwsLine it rs"
    by simp
  have pos: "\<And>run. run \<in> set (runs_from 0 coordTarget pwsLine it rs) \<Longrightarrow> 0 < runLength run"
    using runs_from_pos [OF row_has_runs_all_pos [OF assms(2)]] by blast
  show ?thesis
    unfolding Renderer_PaintBufferOutputColorHelper_def runs
    by (rule arg_cong [where f = concat], rule map_cong [OF refl]) (simp add: ColorHelper_paint_pos pos)
qed

lemma ColorHelper_events_empty:
  "Renderer_PaintBufferOutputColorHelper pf d i pEngine Row pwsLine it 0 0 coordTarget lineWrapped
   = snd (Renderer_UpdateDrawingBrushes d i pEngine (fst (GetAttrByColumn Row 0)) False)
     @ LOG_IF_FAILED (fst (Renderer_UpdateDrawingBrushes d i pEngine (fst (GetAttrByColumn Row 0)) False))"
  by (simp add: Renderer_PaintBufferOutputColorHelper_def ColorHelper_runs_unfold [of _ 0] ColorHelper_paint_def Let_def)

lemma text_draw_LOG [simp]: "filter text_draw (LOG_IF_FAILED hr) = []"
  by (simp add: LOG_IF_FAILED_def)

lemma text_draw_brushes [simp]: "filter text_draw (snd (Renderer_UpdateDrawingBrushes d i pEngine a b)) = []"
  by (simp add: Renderer_UpdateDrawingBrushes_def Let_def)

lemma text_draw_grid [simp]: "filter text_draw (Renderer_PaintBufferOutputGridLineHelper d i pEngine a n c) = []"
  by (simp add: Renderer_PaintBufferOutputGridLineHelper_def logged_def)

lemma text_draw_dbcs:
  "AllocWchar pf n \<Longrightarrow> AllocUchar pf n \<Longrightarrow>
   length (filter text_draw (snd (Renderer_PaintBufferOutputDoubleByteHelper pf i pEngine p cells n c w))) = 1"
  by (simp add: Renderer_PaintBufferOutputDoubleByteHelper_def Let_def)

lemma text_draw_paint:
  "0 < runLength run \<Longrightarrow> AllocWchar pf (runLength run) \<Longrightarrow> AllocUchar pf (runLength run) \<Longrightarrow>
   length (filter text_draw (ColorHelper_paint pf d i pEngine lineWrapped run)) = 1"
  by (simp add: ColorHelper_paint_pos text_draw_dbcs)

lemma text_draw_runs_from:
  "list_all (\<lambda>r. 0 < snd r \<and> AllocWchar pf (snd r) \<and> AllocUchar pf (snd r)) rs \<Longrightarrow>
   length (filter text_draw (concat (map (ColorHelper_paint pf d i pEngine lineWrapped) (runs_from col off p cells rs))))
     = length rs"
  by (induction rs arbitrary: col off p cells) (auto simp: text_draw_paint)

text \<open>
  C8. A row of \<open>N\<close> columns whose attribute runs are \<open>runs\<close> (so \<open>N\<close> is the sum of their
  lengths) is requested in full: from column 0, with \<open>cchLine = N\<close> and all \<open>N\<close> cells.
  Then what \<^verbatim>\<open>_PaintBufferOutputColorHelper\<close> does to the engine is, segment by
  segment in order, this: it sets the brushes to the segment's attribute, hands the
  segment's text, cells, length and screen position to the wide-glyph helper and, where
  grid lines are allowed, draws the grid lines of the same attribute over the same
  length at the same position; a failure of the first two is logged. (With no column at
  all the one pass of the loop sets the brushes and draws nothing.) Where the
  allocations of the wide-glyph helper succeed, the engine is handed text exactly once
  for each run. The segments are the runs, one segment for each run with the run's
  attribute and length, so their lengths add up to \<open>N\<close> and no segment crosses a run
  boundary; and each segment starts where the one before it ended, both the column
  queried and the screen column (in \<^verbatim>\<open>SHORT\<close> arithmetic).
\<close>

theorem attribute_run_decoding:
  assumes "row_has_runs Row 0 runs" and "length it = sum_list (map snd runs)"
  shows "Renderer_PaintBufferOutputColorHelper pf d i pEngine Row pwsLine it (sum_list (map snd runs)) 0
           coordTarget lineWrapped
         = (if runs = []
            then snd (Renderer_UpdateDrawingBrushes d i pEngine (fst (GetAttrByColumn Row 0)) False)
                 @ LOG_IF_FAILED (fst (Renderer_UpdateDrawingBrushes d i pEngine (fst (GetAttrByColumn Row 0)) False))
            else concat (map (\<lambda>run.
                   snd (Renderer_UpdateDrawingBrushes d i pEngine (runAttr run) False)
                   @ LOG_IF_FAILED (fst (Renderer_UpdateDrawingBrushes d i pEngine (runAttr run) False))
                   @ snd (Renderer_PaintBufferOutputDoubleByteHelper pf i pEngine (runText run) (runCells run)
                            (runLength run) (runOffset run) lineWrapped)
                   @ LOG_IF_FAILED (fst (Renderer_PaintBufferOutputDoubleByteHelper pf i pEngine (runText run)
                            (runCells run) (runLength run) (runOffset run) lineWrapped))
                   @ (if IsGridLineDrawingAllowed d
                      then Renderer_PaintBufferOutputGridLineHelper d i pEngine (runAttr run) (runLength run)
                             (runOffset run)
                      else []))
                 (emitted_segments Row it (sum_list (map snd runs)) 0 coordTarget pwsLine)))
       \<and> (list_all (\<lambda>r. AllocWchar pf (snd r) \<and> AllocUchar pf (snd r)) runs \<longrightarrow>
            length (filter text_draw (Renderer_PaintBufferOutputColorHelper pf d i pEngine Row pwsLine it
              (sum_list (map snd runs)) 0 coordTarget lineWrapped)) = length runs)
       \<and> emitted_segments Row it (sum_list (map snd runs)) 0 coordTarget pwsLine
           = runs_from 0 coordTarget pwsLine it runs
       \<and> sum_list (map runLength (emitted_segments Row it (sum_list (map snd runs)) 0 coordTarget pwsLine))
           = sum_list (map snd runs)
       \<and> map runLength (emitted_segments Row it (sum_list (map snd runs)) 0 coordTarget pwsLine) = map snd runs
       \<and> map runAttr (emitted_segments Row it (sum_list (map snd runs)) 0 coordTarget pwsLine) = map fst runs
       \<and> cursor_advances 0 coordTarget (emitted_segments Row it (sum_list (map snd runs)) 0 coordTarget pwsLine)"
    (is "?events \<and> ?draws \<and> ?segments \<and> ?rest")
proof -
  have segments: ?segments
    by (rule emitted_segments_full [OF assms])
  have events: ?events
  proof (cases "runs = []")
    case True
    then show ?thesis
      by (simp add: ColorHelper_events_empty)
  next
    case False
    then show ?thesis
      unfolding segments by (simp add: ColorHelper_events_full [OF False assms])
  qed
  have draws: ?draws
  proof (cases "runs = []")
    case True
    then show ?thesis
      by (simp add: ColorHelper_events_empty)
  next
    case False
    from ColorHelper_runs_full [OF False assms, of coordTarget pwsLine]
    have runs: "ColorHelper_runs Row (sum_list (map snd runs)) 0 0 coordTarget pwsLine it
                = runs_from 0 coordTarget pwsLine it runs"
      by simp
    from row_has_runs_all_pos [OF assms(1)] show ?thesis
      unfolding Renderer_PaintBufferOutputColorHelper_def runs
      by (auto intro!: text_draw_runs_from simp: list_all_iff)
  qed
  have rest: ?rest
    unfolding segments
    by (simp add: map_runLength_runs_from map_runAttr_runs_from cursor_advances_runs_from)
  from events draws segments rest show ?thesis
    by blast
qed

text \<open>
  The sample row with grid lines allowed. Its run boundary after column 1 splits a wide
  glyph, so the second segment starts with the trailing cell: its text is drawn from one
  column to the left with the trim flag on, its grid lines from column 2.
\<close>

theorem attribute_run_decoding_witness:
  "row_has_runs sample_row 0 [(sample_attr 7, 2), (sample_attr 12, 3)]
   \<and> length [\<lparr>CellChar = 0x61, DbcsAttr = Single\<rparr>, \<lparr>CellChar = 0x3042, DbcsAttr = Leading\<rparr>,
        \<lparr>CellChar = 0x3042, DbcsAttr = Trailing\<rparr>, \<lparr>CellChar = 0x62, DbcsAttr = Single\<rparr>,
        \<lparr>CellChar = 0x63, DbcsAttr = Single\<rparr>]
      = sum_list (map snd [(sample_attr 7, 2 :: nat), (sample_attr 12, 3)])
   \<and> Renderer_PaintBufferOutputColorHelper sample_platform (sample_data\<lparr>IsGridLineDrawingAllowed := True\<rparr>) 0
        (sample_engine S_OK) sample_row ((!) [0x61, 0x3042, 0x3042, 0x62, 0x63])
        [\<lparr>CellChar = 0x61, DbcsAttr = Single\<rparr>, \<lparr>CellChar = 0x3042, DbcsAttr = Leading\<rparr>,
         \<lparr>CellChar = 0x3042, DbcsAttr = Trailing\<rparr>, \<lparr>CellChar = 0x62, DbcsAttr = Single\<rparr>,
         \<lparr>CellChar = 0x63, DbcsAttr = Single\<rparr>]
        5 0 \<lparr>X = 0, Y = 0\<rparr> False
      = [Call 0 (UpdateDrawingBrushes 0xC0C0C0 0 7 False False),
         Call 0 (PaintBufferLine [0x61, 0x3042] [1, 2] 2 \<lparr>X = 0, Y = 0\<rparr> False False),
         Call 0 (PaintBufferGridLines \<lparr>LinesTop = False, LinesBottom = False, LinesLeft = False, LinesRight = False\<rparr>
                   0xC0C0C0 2 \<lparr>X = 0, Y = 0\<rparr>),
         Call 0 (UpdateDrawingBrushes 0xC0C0C0 0 12 False False),
         Call 0 (PaintBufferLine [0x3042, 0x62, 0x63] [2, 1, 1] 3 \<lparr>X = 1, Y = 0\<rparr> True False),
         Call 0 (PaintBufferGridLines \<lparr>LinesTop = False, LinesBottom = False, LinesLeft = False, LinesRight = False\<rparr>
                   0xC0C0C0 3 \<lparr>X = 2, Y = 0\<rparr>)]"
proof -
  have runs: "row_has_runs sample_row 0 [(sample_attr 7, 2), (sample_attr 12, 3)]"
    by (simp add: sample_row_def upt_rec)
  have len: "length [\<lparr>CellChar = 0x61, DbcsAttr = Single\<rparr>, \<lparr>CellChar = 0x3042, DbcsAttr = Leading\<rparr>,
        \<lparr>CellChar = 0x3042, DbcsAttr = Trailing\<rparr>, \<lparr>CellChar = 0x62, DbcsAttr = Single\<rparr>,
        \<lparr>CellChar = 0x63, DbcsAttr = Single\<rparr>]
      = sum_list (map snd [(sample_attr 7, 2 :: nat), (sample_attr 12, 3)])"
    by simp
  from attribute_run_decoding [OF runs len, of sample_platform "sample_data\<lparr>IsGridLineDrawingAllowed := True\<rparr>" 0
      "sample_engine S_OK" "(!) [0x61, 0x3042, 0x3042, 0x62, 0x63]" "\<lparr>X = 0, Y = 0\<rparr>" False]
  have "Renderer_PaintBufferOutputColorHelper sample_platform (sample_data\<lparr>IsGridLineDrawingAllowed := True\<rparr>) 0
        (sample_engine S_OK) sample_row ((!) [0x61, 0x3042, 0x3042, 0x62, 0x63])
        [\<lparr>CellChar = 0x61, DbcsAttr = Single\<rparr>, \<lparr>CellChar = 0x3042, DbcsAttr = Leading\<rparr>,
         \<lparr>CellChar = 0x3042, DbcsAttr = Trailing\<rparr>, \<lparr>CellChar = 0x62, DbcsAttr = Single\<rparr>,
         \<lparr>CellChar = 0x63, DbcsAttr = Single\<rparr>]
        5 0 \<lparr>X = 0, Y = 0\<rparr> False
      = [Call 0 (UpdateDrawingBrushes 0xC0C0C0 0 7 False False),
         Call 0 (PaintBufferLine [0x61, 0x3042] [1, 2] 2 \<lparr>X = 0, Y = 0\<rparr> False False),
         Call 0 (PaintBufferGridLines \<lparr>LinesTop = False, LinesBottom = False, LinesLeft = False, LinesRight = False\<rparr>
                   0xC0C0C0 2 \<lparr>X = 0, Y = 0\<rparr>),
         Call 0 (UpdateDrawingBrushes 0xC0C0C0 0 12 False False),
         Call 0 (PaintBufferLine [0x3042, 0x62, 0x63] [2, 1, 1] 3 \<lparr>X = 1, Y = 0\<rparr> True False),
         Call 0 (PaintBufferGridLines \<lparr>LinesTop = False, LinesBottom = False, LinesLeft = False, LinesRight = False\<rparr>
                   0xC0C0C0 3 \<lparr>X = 2, Y = 0\<rparr>)]"
    by (simp add: Renderer_UpdateDrawingBrushes_def Renderer_PaintBufferOutputDoubleByteHelper_def
        Renderer_PaintBufferOutputGridLineHelper_def s_GetGridlines_def logged_def DoubleByte_step_def
        IsTrailing_def IsLeading_def sample_defs hresult_defs LOG_IF_FAILED_def Let_def)
  with runs len show ?thesis
    by simp
qed

text \<open>The same row where grid lines are not allowed, by evaluation of the loop itself.\<close>

lemma decoding_example:
  "Renderer_PaintBufferOutputColorHelper sample_platform sample_data 0 (sample_engine S_OK) sample_row
     ((!) [0x61, 0x3042, 0x3042, 0x62, 0x63])
     [\<lparr>CellChar = 0x61, DbcsAttr = Single\<rparr>, \<lparr>CellChar = 0x3042, DbcsAttr = Leading\<rparr>,
      \<lparr>CellChar = 0x3042, DbcsAttr = Trailing\<rparr>, \<lparr>CellChar = 0x62, DbcsAttr = Single\<rparr>,
      \<lparr>CellChar = 0x63, DbcsAttr = Single\<rparr>]
     5 0 \<lparr>X = 0, Y = 0\<rparr> False
   = [Call 0 (UpdateDrawingBrushes 0xC0C0C0 0 7 False False),
      Call 0 (PaintBufferLine [0x61, 0x3042] [1, 2] 2 \<lparr>X = 0, Y = 0\<rparr> False False),
      Call 0 (UpdateDrawingBrushes 0xC0C0C0 0 12 False False),
      Call 0 (PaintBufferLine [0x3042, 0x62, 0x63] [2, 1, 1] 3 \<lparr>X = 1, Y = 0\<rparr> True False)]"
  by (simp add: Renderer_PaintBufferOutputColorHelper_def ColorHelper_runs_unfold ColorHelper_paint_def
      Renderer_UpdateDrawingBrushes_def Renderer_PaintBufferOutputDoubleByteHelper_def DoubleByte_step_def
      IsTrailing_def IsLeading_def sample_row_def sample_defs hresult_defs LOG_IF_FAILED_def Let_def)

subsection \<open>Scroll check\<close>

lemma calls_to_append [simp]: "calls_to i (xs @ ys) = calls_to i xs @ calls_to i ys"
  by (induction i xs rule: calls_to.induct) auto

lemma calls_to_LOG_IF_FAILED [simp]: "calls_to i (LOG_IF_FAILED hr) = []"
  by (simp add: LOG_IF_FAILED_def)

lemma calls_to_logged [simp]: "calls_to j (logged i pEngine c) = (if i = j then [c] else [])"
  by (simp add: logged_def)

lemma calls_to_fanout:
  assumes "\<And>i pEngine. calls_to j (f i pEngine) = (if i = j then cs else [])"
  shows "calls_to j (concat (map (\<lambda>(i, pEngine). f i pEngine) (enumerate k engines)))
           = (if k \<le> j \<and> j < k + length engines then cs else [])"
  by (induction engines arbitrary: k) (auto simp: assms)

text \<open>
  C2, as amended. Every scroll check, whether or not the viewport moved, tells each
  attached engine the current viewport and then makes exactly one \<^verbatim>\<open>InvalidateScroll\<close>
  call on it, carrying the previous top left corner minus the current one (in
  \<^verbatim>\<open>SHORT\<close> arithmetic); the delta is zero when the rectangle is unchanged. The
  previous viewport becomes the current one, the check reports whether the delta is
  non-zero, and in a frame the check comes before \<^verbatim>\<open>StartPaint\<close>.
  \<^verbatim>\<open>TriggerScroll\<close> makes the same calls and wakes the paint thread if the delta is
  non-zero.
\<close>

theorem scroll_delta_recomputation:
  assumes "i < length (rgpEngines r)"
  shows "calls_to i (snd (snd (Renderer_CheckViewportAndScroll r)))
           = [UpdateViewport (ToInclusive (GetViewport (pData r))),
              InvalidateScroll
                \<lparr>X = Left (srViewportPrevious r) - Left (ToInclusive (GetViewport (pData r))),
                 Y = Top (srViewportPrevious r) - Top (ToInclusive (GetViewport (pData r)))\<rparr>]
       \<and> srViewportPrevious (fst (snd (Renderer_CheckViewportAndScroll r))) = ToInclusive (GetViewport (pData r))
       \<and> (fst (Renderer_CheckViewportAndScroll r) \<longleftrightarrow>
            \<lparr>X = Left (srViewportPrevious r) - Left (ToInclusive (GetViewport (pData r))),
             Y = Top (srViewportPrevious r) - Top (ToInclusive (GetViewport (pData r)))\<rparr> \<noteq> \<lparr>X = 0, Y = 0\<rparr>)
       \<and> (srViewportPrevious r = ToInclusive (GetViewport (pData r)) \<longrightarrow>
            calls_to i (snd (snd (Renderer_CheckViewportAndScroll r)))
              = [UpdateViewport (srViewportPrevious r), InvalidateScroll \<lparr>X = 0, Y = 0\<rparr>])
       \<and> (\<exists>rest. snd (snd (Renderer_PaintFrameForEngine pf r i (rgpEngines r ! i)))
              = LockConsole # snd (snd (Renderer_CheckViewportAndScroll r)) @ Call i StartPaint # rest)
       \<and> snd (Renderer_TriggerScroll r)
           = snd (snd (Renderer_CheckViewportAndScroll r))
             @ (if fst (Renderer_CheckViewportAndScroll r) then [NotifyPaint] else [])"
proof -
  let ?new = "ToInclusive (GetViewport (pData r))"
  let ?delta = "\<lparr>X = Left (srViewportPrevious r) - Left ?new, Y = Top (srViewportPrevious r) - Top ?new\<rparr>"
  have calls: "calls_to i (snd (snd (Renderer_CheckViewportAndScroll r))) = [UpdateViewport ?new, InvalidateScroll ?delta]"
    using assms
    by (simp add: Renderer_CheckViewportAndScroll_def Let_def
        calls_to_fanout [where f = "\<lambda>i pEngine. logged i pEngine (UpdateViewport ?new) @ logged i pEngine (InvalidateScroll ?delta)"
          and cs = "[UpdateViewport ?new, InvalidateScroll ?delta]"])
  have frame: "\<exists>rest. snd (snd (Renderer_PaintFrameForEngine pf r i (rgpEngines r ! i)))
              = LockConsole # snd (snd (Renderer_CheckViewportAndScroll r)) @ Call i StartPaint # rest"
    by (simp add: Renderer_PaintFrameForEngine_def Let_def)
  have trigger: "snd (Renderer_TriggerScroll r)
           = snd (snd (Renderer_CheckViewportAndScroll r))
             @ (if fst (Renderer_CheckViewportAndScroll r) then [NotifyPaint] else [])"
    by (simp add: Renderer_TriggerScroll_def Renderer_NotifyPaintFrame_def Let_def)
  have state: "srViewportPrevious (fst (snd (Renderer_CheckViewportAndScroll r))) = ?new"
    and scrolled: "fst (Renderer_CheckViewportAndScroll r) \<longleftrightarrow> ?delta \<noteq> \<lparr>X = 0, Y = 0\<rparr>"
    by (auto simp: Renderer_CheckViewportAndScroll_def Let_def)
  have still: "calls_to i (snd (snd (Renderer_CheckViewportAndScroll r)))
      = [UpdateViewport (srViewportPrevious r), InvalidateScroll \<lparr>X = 0, Y = 0\<rparr>]"
    if "srViewportPrevious r = ?new"
    using calls that by simp
  from calls state scrolled still frame trigger show ?thesis
    by blast
qed

text \<open>A viewport that moved up by five rows, with two engines attached.\<close>

theorem scroll_delta_recomputation_witness:
  "1 < length (rgpEngines ((sample_renderer [sample_engine S_OK, sample_engine E_FAIL])
          \<lparr>srViewportPrevious := \<lparr>Left = 0, Top = 5, Right = 79, Bottom = 28\<rparr>\<rparr>))
   \<and> calls_to 1 (snd (snd (Renderer_CheckViewportAndScroll
        ((sample_renderer [sample_engine S_OK, sample_engine E_FAIL])
          \<lparr>srViewportPrevious := \<lparr>Left = 0, Top = 5, Right = 79, Bottom = 28\<rparr>\<rparr>))))
       = [UpdateViewport \<lparr>Left = 0, Top = 0, Right = 79, Bottom = 23\<rparr>, InvalidateScroll \<lparr>X = 0, Y = 5\<rparr>]
   \<and> srViewportPrevious (fst (snd (Renderer_CheckViewportAndScroll
        ((sample_renderer [sample_engine S_OK, sample_engine E_FAIL])
          \<lparr>srViewportPrevious := \<lparr>Left = 0, Top = 5, Right = 79, Bottom = 28\<rparr>\<rparr>))))
       = \<lparr>Left = 0, Top = 0, Right = 79, Bottom = 23\<rparr>"
  using scroll_delta_recomputation [of 1
      "(sample_renderer [sample_engine S_OK, sample_engine E_FAIL])
          \<lparr>srViewportPrevious := \<lparr>Left = 0, Top = 5, Right = 79, Bottom = 28\<rparr>\<rparr>" sample_platform]
  by (simp add: sample_defs)

text \<open>
  C2 as stated fails: with the viewport where it was, the check still makes an
  \<^verbatim>\<open>InvalidateScroll\<close> call (with the zero delta), and so does every frame of
  \<^verbatim>\<open>PaintFrame\<close>.
\<close>

theorem scroll_invalidation_without_movement:
  "srViewportPrevious (sample_renderer [sample_engine S_OK])
     = ToInclusive (GetViewport (pData (sample_renderer [sample_engine S_OK])))
   \<and> snd (snd (Renderer_CheckViewportAndScroll (sample_renderer [sample_engine S_OK])))
     = [Call 0 (UpdateViewport \<lparr>Left = 0, Top = 0, Right = 79, Bottom = 23\<rparr>),
        Call 0 (InvalidateScroll \<lparr>X = 0, Y = 0\<rparr>)]
   \<and> snd (snd (Renderer_PaintFrame sample_platform (sample_renderer [sample_engine S_OK])))
     = [LockConsole,
        Call 0 (UpdateViewport \<lparr>Left = 0, Top = 0, Right = 79, Bottom = 23\<rparr>),
        Call 0 (InvalidateScroll \<lparr>X = 0, Y = 0\<rparr>),
        Call 0 StartPaint,
        Call 0 (UpdateDrawingBrushes 0xC0C0C0 0 7 False True),
        Call 0 ScrollFrame,
        Call 0 PaintBackground,
        Call 0 GetDirtyRectInChars,
        Call 0 GetDirtyRectInChars,
        Call 0 (UpdateTitle []),
        Call 0 EndPaint,
        UnlockConsole,
        Call 0 Present]"
  by (simp add: sample_defs hresult_defs Renderer_CheckViewportAndScroll_def Renderer_PaintFrame_def
      Renderer_PaintFrameForEngine_def PaintFrame_guarded_def paint_layers_def Renderer_PaintBufferOutput_def
      Renderer_PaintImeCompositionString_def Renderer_PaintSelection_def Renderer_PaintCursor_def
      Renderer_GetSelectionRects_def Renderer_UpdateDrawingBrushes_def paint_rows_def
      logged_def LOG_IF_FAILED_def Let_def)

subsection \<open>Selection\<close>

lemma calls_to_NotifyPaintFrame [simp]: "calls_to i Renderer_NotifyPaintFrame = []"
  by (simp add: Renderer_NotifyPaintFrame_def)

text \<open>
  C3. Two successive calls of \<^verbatim>\<open>TriggerSelection\<close>, the first computing the rectangles
  \<open>A\<close> and the second \<open>B\<close>: the second call asks every attached engine to invalidate \<open>A\<close>
  and then \<open>B\<close>, so the rectangles invalidated are those of \<open>A\<close> and of \<open>B\<close> together, and
  it leaves \<open>B\<close> as the previous selection. A third call with the selection still \<open>B\<close>
  invalidates \<open>B\<close> only. Whatever cells an engine takes a rectangle to cover (\<open>cells\<close>),
  the cells invalidated by the second call are those of \<open>A\<close> together with those of \<open>B\<close>.
\<close>

theorem selection_diff:
  assumes "Renderer_GetSelectionRects d1 = Inr A" and "Renderer_GetSelectionRects d2 = Inr B"
    and "i < length (rgpEngines r)"
  shows "calls_to i (snd (Renderer_TriggerSelection ((fst (Renderer_TriggerSelection (r\<lparr>pData := d1\<rparr>)))\<lparr>pData := d2\<rparr>)))
           = [InvalidateSelection A, InvalidateSelection B]
       \<and> set (invalidated_selection (calls_to i
            (snd (Renderer_TriggerSelection ((fst (Renderer_TriggerSelection (r\<lparr>pData := d1\<rparr>)))\<lparr>pData := d2\<rparr>)))))
           = set A \<union> set B
       \<and> previousSelection (fst (Renderer_TriggerSelection ((fst (Renderer_TriggerSelection (r\<lparr>pData := d1\<rparr>)))\<lparr>pData := d2\<rparr>)))
           = B
       \<and> calls_to i (snd (Renderer_TriggerSelection
            (fst (Renderer_TriggerSelection ((fst (Renderer_TriggerSelection (r\<lparr>pData := d1\<rparr>)))\<lparr>pData := d2\<rparr>)))))
           = [InvalidateSelection B, InvalidateSelection B]
       \<and> set (invalidated_selection (calls_to i (snd (Renderer_TriggerSelection
            (fst (Renderer_TriggerSelection ((fst (Renderer_TriggerSelection (r\<lparr>pData := d1\<rparr>)))\<lparr>pData := d2\<rparr>)))))))
           = set B
       \<and> (\<Union>rect\<in>set (invalidated_selection (calls_to i
            (snd (Renderer_TriggerSelection ((fst (Renderer_TriggerSelection (r\<lparr>pData := d1\<rparr>)))\<lparr>pData := d2\<rparr>))))).
              cells rect)
           = (\<Union>rect\<in>set A. cells rect) \<union> (\<Union>rect\<in>set B. cells rect)"
proof -
  have step: "calls_to i (snd (Renderer_TriggerSelection s)) = [InvalidateSelection (previousSelection s), InvalidateSelection R]
      \<and> fst (Renderer_TriggerSelection s) = s\<lparr>previousSelection := R\<rparr>"
    if "Renderer_GetSelectionRects (pData s) = Inr R" and "i < length (rgpEngines s)" for s R
    using that
    by (simp add: Renderer_TriggerSelection_def
        calls_to_fanout [where f = "\<lambda>i pEngine. logged i pEngine (InvalidateSelection (previousSelection s))
            @ logged i pEngine (InvalidateSelection R)"
          and cs = "[InvalidateSelection (previousSelection s), InvalidateSelection R]"])
  let ?r1 = "fst (Renderer_TriggerSelection (r\<lparr>pData := d1\<rparr>))"
  have r1: "?r1 = r\<lparr>pData := d1, previousSelection := A\<rparr>"
    using step [of "r\<lparr>pData := d1\<rparr>" A] assms by simp
  have second: "calls_to i (snd (Renderer_TriggerSelection (?r1\<lparr>pData := d2\<rparr>))) = [InvalidateSelection A, InvalidateSelection B]"
    and r2: "fst (Renderer_TriggerSelection (?r1\<lparr>pData := d2\<rparr>)) = r\<lparr>pData := d2, previousSelection := B\<rparr>"
    using step [of "?r1\<lparr>pData := d2\<rparr>" B] assms by (simp_all add: r1)
  have third: "calls_to i (snd (Renderer_TriggerSelection (r\<lparr>pData := d2, previousSelection := B\<rparr>)))
      = [InvalidateSelection B, InvalidateSelection B]"
    using step [of "r\<lparr>pData := d2, previousSelection := B\<rparr>" B] assms by simp
  show ?thesis
    by (simp add: second third r2 UN_Un)
qed

text \<open>Two engines; the selection grows from columns 2 to 10 to columns 2 to 20 of row 1.\<close>

theorem selection_diff_witness:
  "Renderer_GetSelectionRects (sample_data\<lparr>GetSelectionRects := Inr [\<lparr>Left = 2, Top = 1, Right = 10, Bottom = 1\<rparr>]\<rparr>)
     = Inr [\<lparr>Left = 2, Top = 1, Right = 11, Bottom = 2\<rparr>]
   \<and> Renderer_GetSelectionRects (sample_data\<lparr>GetSelectionRects := Inr [\<lparr>Left = 2, Top = 1, Right = 20, Bottom = 1\<rparr>]\<rparr>)
     = Inr [\<lparr>Left = 2, Top = 1, Right = 21, Bottom = 2\<rparr>]
   \<and> 1 < length (rgpEngines (sample_renderer [sample_engine S_OK, sample_engine E_FAIL]))
   \<and> calls_to 1 (snd (Renderer_TriggerSelection
        ((fst (Renderer_TriggerSelection ((sample_renderer [sample_engine S_OK, sample_engine E_FAIL])
            \<lparr>pData := sample_data\<lparr>GetSelectionRects := Inr [\<lparr>Left = 2, Top = 1, Right = 10, Bottom = 1\<rparr>]\<rparr>\<rparr>)))
          \<lparr>pData := sample_data\<lparr>GetSelectionRects := Inr [\<lparr>Left = 2, Top = 1, Right = 20, Bottom = 1\<rparr>]\<rparr>\<rparr>)))
     = [InvalidateSelection [\<lparr>Left = 2, Top = 1, Right = 11, Bottom = 2\<rparr>],
        InvalidateSelection [\<lparr>Left = 2, Top = 1, Right = 21, Bottom = 2\<rparr>]]"
proof -
  have a: "Renderer_GetSelectionRects (sample_data\<lparr>GetSelectionRects := Inr [\<lparr>Left = 2, Top = 1, Right = 10, Bottom = 1\<rparr>]\<rparr>)
     = Inr [\<lparr>Left = 2, Top = 1, Right = 11, Bottom = 2\<rparr>]"
    by (simp add: Renderer_GetSelectionRects_def sample_defs Let_def)
  have b: "Renderer_GetSelectionRects (sample_data\<lparr>GetSelectionRects := Inr [\<lparr>Left = 2, Top = 1, Right = 20, Bottom = 1\<rparr>]\<rparr>)
     = Inr [\<lparr>Left = 2, Top = 1, Right = 21, Bottom = 2\<rparr>]"
    by (simp add: Renderer_GetSelectionRects_def sample_defs Let_def)
  have n: "1 < length (rgpEngines (sample_renderer [sample_engine S_OK, sample_engine E_FAIL]))"
    by (simp add: sample_renderer_def)
  from selection_diff [OF a b n, THEN conjunct1] a b n show ?thesis
    by simp
qed

subsection \<open>Frame shape\<close>

lemma drawing_event_internal: "drawing_event i ev \<Longrightarrow> frame_internal ev"
  by (cases ev; cases "case ev of Call j c \<Rightarrow> c | _ \<Rightarrow> StartPaint") auto

lemma drawing_LOG_IF_FAILED [simp]: "ev \<in> set (LOG_IF_FAILED hr) \<Longrightarrow> drawing_event i ev"
  by (auto simp: LOG_IF_FAILED_def split: if_splits)

lemma drawing_UpdateDrawingBrushes:
  "ev \<in> set (snd (Renderer_UpdateDrawingBrushes d i pEngine attr bkg)) \<Longrightarrow> drawing_event i ev"
  by (auto simp: Renderer_UpdateDrawingBrushes_def Let_def)

lemma drawing_DoubleByteHelper:
  "ev \<in> set (snd (Renderer_PaintBufferOutputDoubleByteHelper pf i pEngine pwsLine it cchLine coordTarget lineWrapped))
     \<Longrightarrow> drawing_event i ev"
  by (auto simp: Renderer_PaintBufferOutputDoubleByteHelper_def Let_def split: if_splits)

lemma drawing_GridLineHelper:
  "ev \<in> set (Renderer_PaintBufferOutputGridLineHelper d i pEngine attr cchLine coordTarget) \<Longrightarrow> drawing_event i ev"
  by (auto simp: Renderer_PaintBufferOutputGridLineHelper_def logged_def)

lemma drawing_ColorHelper_paint:
  "ev \<in> set (ColorHelper_paint pf d i pEngine lineWrapped run) \<Longrightarrow> drawing_event i ev"
  by (auto simp: ColorHelper_paint_def Let_def split: if_splits
      dest: drawing_UpdateDrawingBrushes drawing_DoubleByteHelper drawing_GridLineHelper)

lemma drawing_ColorHelper:
  "ev \<in> set (Renderer_PaintBufferOutputColorHelper pf d i pEngine Row pwsLine it cchLine iFirstAttr coordTarget lineWrapped)
     \<Longrightarrow> drawing_event i ev"
  by (auto simp: Renderer_PaintBufferOutputColorHelper_def dest: drawing_ColorHelper_paint)

lemma drawing_RasterFontHelper:
  "ev \<in> set (Renderer_PaintBufferOutputRasterFontHelper pf d i pEngine Row pwsLine it cchLine iFirstAttr coordTarget lineWrapped)
     \<Longrightarrow> drawing_event i ev"
  by (auto simp: Renderer_PaintBufferOutputRasterFontHelper_def Let_def dest: drawing_ColorHelper)

lemma drawing_paint_rows:
  "ev \<in> set (paint_rows pf d i pEngine wrapped rows) \<Longrightarrow> drawing_event i ev"
  by (auto simp: paint_rows_def dest: drawing_RasterFontHelper split: option.splits)

lemma drawing_PaintBufferOutput:
  "ev \<in> set (Renderer_PaintBufferOutput pf d i pEngine) \<Longrightarrow> drawing_event i ev"
  by (auto simp: Renderer_PaintBufferOutput_def dest: drawing_paint_rows)

lemma drawing_PaintIme:
  "ev \<in> set (Renderer_PaintIme pf d i pEngine AreaInfo) \<Longrightarrow> drawing_event i ev"
  by (auto simp: Renderer_PaintIme_def dest: drawing_paint_rows split: if_splits)

lemma drawing_PaintImeCompositionString:
  "ev \<in> set (Renderer_PaintImeCompositionString pf d i pEngine) \<Longrightarrow> drawing_event i ev"
  by (auto simp: Renderer_PaintImeCompositionString_def dest: drawing_PaintIme split: option.splits)

lemma drawing_PaintSelection:
  "ev \<in> set (Renderer_PaintSelection pf d i pEngine) \<Longrightarrow> drawing_event i ev"
  by (auto simp: Renderer_PaintSelection_def Let_def logged_def split: sum.splits if_splits)

lemma drawing_PaintCursor:
  "ev \<in> set (Renderer_PaintCursor pf d i pEngine) \<Longrightarrow> drawing_event i ev"
  by (auto simp: Renderer_PaintCursor_def Let_def logged_def split: if_splits)

lemma drawing_paint_layers:
  "ev \<in> set (paint_layers pf d i pEngine) \<Longrightarrow> drawing_event i ev"
  by (auto simp: paint_layers_def
      dest: drawing_PaintBufferOutput drawing_PaintImeCompositionString drawing_PaintSelection drawing_PaintCursor)

lemma drawing_PaintFrame_guarded:
  "ev \<in> set (snd (PaintFrame_guarded pf d i pEngine)) \<Longrightarrow> drawing_event i ev"
  by (auto simp: PaintFrame_guarded_def Let_def split: if_splits
      dest: drawing_UpdateDrawingBrushes drawing_paint_layers)

lemma internal_CheckViewportAndScroll:
  "ev \<in> set (snd (snd (Renderer_CheckViewportAndScroll r))) \<Longrightarrow> frame_internal ev"
  by (auto simp: Renderer_CheckViewportAndScroll_def Let_def logged_def LOG_IF_FAILED_def split: if_splits)

lemma CheckViewportAndScroll_state: "fst (snd (Renderer_CheckViewportAndScroll r)) = after_check r"
  by (simp add: Renderer_CheckViewportAndScroll_def after_check_def Let_def)

lemma PaintFrameForEngine_state: "fst (snd (Renderer_PaintFrameForEngine pf r i pEngine)) = after_check r"
  by (simp add: Renderer_PaintFrameForEngine_def Let_def CheckViewportAndScroll_state)

lemma after_check_simps [simp]:
  "pData (after_check r) = pData r"
  "rgpEngines (after_check r) = rgpEngines r"
  "pThread (after_check r) = pThread r"
  "after_check (after_check r) = after_check r"
  by (simp_all add: after_check_def)

lemma internal_logged_EndPaint: "ev \<in> set (logged i pEngine EndPaint) \<Longrightarrow> frame_internal ev"
  by (auto simp: logged_def LOG_IF_FAILED_def split: if_splits)

lemma frame_shape:
  "\<exists>mid. snd (snd (Renderer_PaintFrameForEngine pf r i pEngine))
           = LockConsole # snd (snd (Renderer_CheckViewportAndScroll r)) @ Call i StartPaint # mid
             @ UnlockConsole # (if frame_completes pf (pData r) i pEngine then [Call i Present] else [])
         \<and> (\<forall>ev\<in>set mid. frame_internal ev)"
proof -
  let ?body = "PaintFrame_guarded pf (pData r) i pEngine"
  have body: "\<forall>ev\<in>set (snd ?body @ logged i pEngine EndPaint). frame_internal ev"
    by (auto dest: drawing_PaintFrame_guarded drawing_event_internal internal_logged_EndPaint)
  consider (failed) "FAILED (Returns pEngine StartPaint)"
    | (nothing) "\<not> FAILED (Returns pEngine StartPaint)" "Returns pEngine StartPaint = S_FALSE"
    | (aborted) "\<not> FAILED (Returns pEngine StartPaint)" "Returns pEngine StartPaint \<noteq> S_FALSE" "FAILED (fst ?body)"
    | (painted) "\<not> FAILED (Returns pEngine StartPaint)" "Returns pEngine StartPaint \<noteq> S_FALSE" "\<not> FAILED (fst ?body)"
    by blast
  then show ?thesis
  proof cases
    case failed
    then show ?thesis
      by (intro exI [of _ "[]"]) (simp add: Renderer_PaintFrameForEngine_def Let_def frame_completes_def)
  next
    case nothing
    then show ?thesis
      by (intro exI [of _ "[]"]) (simp add: Renderer_PaintFrameForEngine_def Let_def frame_completes_def)
  next
    case aborted
    then show ?thesis
      using body
      by (intro exI [of _ "snd ?body @ logged i pEngine EndPaint"])
        (simp add: Renderer_PaintFrameForEngine_def Let_def frame_completes_def CheckViewportAndScroll_state)
  next
    case painted
    then show ?thesis
      using body
      by (intro exI [of _ "snd ?body @ logged i pEngine EndPaint"])
        (simp add: Renderer_PaintFrameForEngine_def Let_def frame_completes_def CheckViewportAndScroll_state)
  qed
qed

lemma lock_ok_internal:
  "\<forall>ev\<in>set xs. frame_internal ev \<Longrightarrow> lock_ok (Suc depth) (xs @ ys) = lock_ok (Suc depth) ys"
proof (induction xs)
  case Nil
  then show ?case by simp
next
  case (Cons ev xs)
  then have "frame_internal ev" and rest: "lock_ok (Suc depth) (xs @ ys) = lock_ok (Suc depth) ys"
    by simp_all
  then show ?case
    by (cases ev; cases "case ev of Call j c \<Rightarrow> c | _ \<Rightarrow> StartPaint") (simp_all add: rest)
qed

lemma internal_no_lock:
  "\<forall>ev\<in>set xs. frame_internal ev \<Longrightarrow>
     LockConsole \<notin> set xs \<and> UnlockConsole \<notin> set xs \<and> Call j Present \<notin> set xs \<and> Call j StartPaint \<notin> set xs
     \<and> Call j PrepareForTeardown \<notin> set xs"
  by auto

lemma frame_lock_discipline:
  "lock_ok 0 (snd (snd (Renderer_PaintFrameForEngine pf r i pEngine)))"
proof -
  obtain mid where evs: "snd (snd (Renderer_PaintFrameForEngine pf r i pEngine))
           = LockConsole # snd (snd (Renderer_CheckViewportAndScroll r)) @ Call i StartPaint # mid
             @ UnlockConsole # (if frame_completes pf (pData r) i pEngine then [Call i Present] else [])"
    and mid: "\<forall>ev\<in>set mid. frame_internal ev"
    using frame_shape by blast
  have check: "\<forall>ev\<in>set (snd (snd (Renderer_CheckViewportAndScroll r))). frame_internal ev"
    by (auto dest: internal_CheckViewportAndScroll)
  show ?thesis
    by (simp add: evs lock_ok_internal [OF check] lock_ok_internal [OF mid])
qed

lemma frame_lock_counts:
  "count_list (snd (snd (Renderer_PaintFrameForEngine pf r i pEngine))) LockConsole = 1
   \<and> count_list (snd (snd (Renderer_PaintFrameForEngine pf r i pEngine))) UnlockConsole = 1"
proof -
  obtain mid where evs: "snd (snd (Renderer_PaintFrameForEngine pf r i pEngine))
           = LockConsole # snd (snd (Renderer_CheckViewportAndScroll r)) @ Call i StartPaint # mid
             @ UnlockConsole # (if frame_completes pf (pData r) i pEngine then [Call i Present] else [])"
    and mid: "\<forall>ev\<in>set mid. frame_internal ev"
    using frame_shape by blast
  have check: "\<forall>ev\<in>set (snd (snd (Renderer_CheckViewportAndScroll r))). frame_internal ev"
    by (auto dest: internal_CheckViewportAndScroll)
  show ?thesis
    using internal_no_lock [OF check] internal_no_lock [OF mid]
    by (simp add: evs)
qed

lemma frame_presents:
  "Call j Present \<in> set (snd (snd (Renderer_PaintFrameForEngine pf r i pEngine)))
     \<longleftrightarrow> j = i \<and> frame_completes pf (pData r) i pEngine"
proof -
  obtain mid where evs: "snd (snd (Renderer_PaintFrameForEngine pf r i pEngine))
           = LockConsole # snd (snd (Renderer_CheckViewportAndScroll r)) @ Call i StartPaint # mid
             @ UnlockConsole # (if frame_completes pf (pData r) i pEngine then [Call i Present] else [])"
    and mid: "\<forall>ev\<in>set mid. frame_internal ev"
    using frame_shape by blast
  have check: "\<forall>ev\<in>set (snd (snd (Renderer_CheckViewportAndScroll r))). frame_internal ev"
    by (auto dest: internal_CheckViewportAndScroll)
  show ?thesis
    using internal_no_lock [OF check, of j] internal_no_lock [OF mid, of j]
    by (auto simp: evs)
qed

lemma frame_completed_tail:
  assumes "frame_completes pf (pData r) i pEngine"
  shows "\<exists>before. snd (snd (Renderer_PaintFrameForEngine pf r i pEngine))
           = LockConsole # before @ Call i EndPaint # LOG_IF_FAILED (Returns pEngine EndPaint)
             @ [UnlockConsole, Call i Present]
         \<and> set (paint_layers pf (pData r) i pEngine) \<subseteq> set before"
  using assms
  by (intro exI [of _ "snd (snd (Renderer_CheckViewportAndScroll r)) @ Call i StartPaint
        # snd (PaintFrame_guarded pf (pData r) i pEngine)"])
    (auto simp: Renderer_PaintFrameForEngine_def Let_def frame_completes_def CheckViewportAndScroll_state
      logged_def PaintFrame_guarded_def split: if_splits)

text \<open>
  C6. In every run of the frame procedure the lock is taken once and released once, every
  engine call but \<^verbatim>\<open>Present\<close> is made while it is held, and \<^verbatim>\<open>Present\<close> is made
  after it is released. \<^verbatim>\<open>Present\<close> is reached exactly when the engine's answers
  let the frame complete, and then the frame ends with \<^verbatim>\<open>EndPaint\<close>, the release of
  the lock and \<^verbatim>\<open>Present\<close>, in this order, all layer drawing before them.
\<close>

theorem present_outside_lock:
  "lock_ok 0 (snd (snd (Renderer_PaintFrameForEngine pf r i pEngine)))
   \<and> count_list (snd (snd (Renderer_PaintFrameForEngine pf r i pEngine))) LockConsole = 1
   \<and> count_list (snd (snd (Renderer_PaintFrameForEngine pf r i pEngine))) UnlockConsole = 1
   \<and> (Call i Present \<in> set (snd (snd (Renderer_PaintFrameForEngine pf r i pEngine)))
        \<longleftrightarrow> frame_completes pf (pData r) i pEngine)
   \<and> (frame_completes pf (pData r) i pEngine \<longrightarrow>
        (\<exists>before. snd (snd (Renderer_PaintFrameForEngine pf r i pEngine))
           = LockConsole # before @ Call i EndPaint # LOG_IF_FAILED (Returns pEngine EndPaint)
             @ [UnlockConsole, Call i Present]
         \<and> set (paint_layers pf (pData r) i pEngine) \<subseteq> set before))"
  using frame_lock_discipline [of pf r i pEngine] frame_lock_counts [of pf r i pEngine]
    frame_presents [of i pf r i pEngine] frame_completed_tail [of pf r i pEngine]
  by blast

text \<open>An engine that answers \<^verbatim>\<open>S_OK\<close> throughout is presented; one whose \<^verbatim>\<open>StartPaint\<close> fails is not.\<close>

theorem present_outside_lock_witness:
  "frame_completes sample_platform (pData (sample_renderer [sample_engine S_OK])) 0 (sample_engine S_OK)
   \<and> lock_ok 0 (snd (snd (Renderer_PaintFrameForEngine sample_platform (sample_renderer [sample_engine S_OK]) 0
        (sample_engine S_OK))))
   \<and> Call 0 Present \<in> set (snd (snd (Renderer_PaintFrameForEngine sample_platform (sample_renderer [sample_engine S_OK]) 0
        (sample_engine S_OK))))
   \<and> \<not> frame_completes sample_platform (pData (sample_renderer [sample_engine E_FAIL])) 0 (sample_engine E_FAIL)
   \<and> Call 0 Present \<notin> set (snd (snd (Renderer_PaintFrameForEngine sample_platform (sample_renderer [sample_engine E_FAIL]) 0
        (sample_engine E_FAIL))))"
proof -
  have ok: "frame_completes sample_platform (pData (sample_renderer [sample_engine S_OK])) 0 (sample_engine S_OK)"
    by (simp add: frame_completes_def PaintFrame_guarded_def Renderer_UpdateDrawingBrushes_def Let_def
        sample_defs hresult_defs)
  have bad: "\<not> frame_completes sample_platform (pData (sample_renderer [sample_engine E_FAIL])) 0 (sample_engine E_FAIL)"
    by (simp add: frame_completes_def sample_defs hresult_defs)
  from present_outside_lock [of sample_platform "sample_renderer [sample_engine S_OK]" 0 "sample_engine S_OK"]
    present_outside_lock [of sample_platform "sample_renderer [sample_engine E_FAIL]" 0 "sample_engine E_FAIL"]
    ok bad
  show ?thesis by blast
qed

subsection \<open>Paint all\<close>

lemma PaintFrame_engines_settled:
  "after_check s = s \<Longrightarrow>
   PaintFrame_engines pf s engines = (s, concat (map (\<lambda>(i, pEngine). frame_block pf s i pEngine) engines))"
  by (induction engines) (auto simp: Let_def PaintFrameForEngine_state frame_block_def)

lemma PaintFrame_engines_blocks:
  "snd (PaintFrame_engines pf r (enumerate k engines))
     = concat (map (\<lambda>(i, pEngine). frame_block pf (if i = k then r else after_check r) i pEngine)
         (enumerate k engines))"
proof (cases engines)
  case Nil
  then show ?thesis by simp
next
  case (Cons pEngine rest)
  have later: "map (\<lambda>(i, pEngine). frame_block pf (if i = k then r else after_check r) i pEngine) (enumerate (Suc k) rest)
      = map (\<lambda>(i, pEngine). frame_block pf (after_check r) i pEngine) (enumerate (Suc k) rest)"
    by (rule map_cong) (auto simp: in_set_enumerate_eq)
  show ?thesis
    by (simp add: Cons Let_def PaintFrameForEngine_state PaintFrame_engines_settled later
        frame_block_def [symmetric])
qed

lemma concat_member: "x \<in> set xs \<Longrightarrow> set (f x) \<subseteq> set (concat (map f xs))"
  by auto

lemma filter_starts_frame_internal: "\<forall>ev\<in>set xs. frame_internal ev \<Longrightarrow> filter starts_frame xs = []"
proof (induction xs)
  case Nil
  then show ?case by simp
next
  case (Cons ev xs)
  then show ?case
    by (cases ev; cases "case ev of Call j c \<Rightarrow> c | _ \<Rightarrow> StartPaint") simp_all
qed

lemma filter_starts_frame_block: "filter starts_frame (frame_block pf s i pEngine) = [Call i StartPaint]"
proof -
  obtain mid where evs: "snd (snd (Renderer_PaintFrameForEngine pf s i pEngine))
           = LockConsole # snd (snd (Renderer_CheckViewportAndScroll s)) @ Call i StartPaint # mid
             @ UnlockConsole # (if frame_completes pf (pData s) i pEngine then [Call i Present] else [])"
    and mid: "\<forall>ev\<in>set mid. frame_internal ev"
    using frame_shape by blast
  have check: "\<forall>ev\<in>set (snd (snd (Renderer_CheckViewportAndScroll s))). frame_internal ev"
    by (auto dest: internal_CheckViewportAndScroll)
  show ?thesis
    by (simp add: frame_block_def evs filter_starts_frame_internal [OF check]
        filter_starts_frame_internal [OF mid] LOG_IF_FAILED_def)
qed

lemma filter_starts_frame_blocks:
  "filter starts_frame (concat (map (\<lambda>(i, pEngine). frame_block pf (st i) i pEngine) (enumerate k engines)))
     = map (\<lambda>i. Call i StartPaint) [k..<k + length engines]"
proof (induction engines arbitrary: k)
  case Nil
  then show ?case by simp
next
  case (Cons pEngine engines)
  have "[k..<k + length (pEngine # engines)] = k # [Suc k..<Suc k + length engines]"
    by (subst upt_conv_Cons) (simp_all del: upt_Suc)
  then show ?case
    using Cons.IH [of "Suc k"] by (simp add: filter_starts_frame_block)
qed

text \<open>
  C5. The events of \<^verbatim>\<open>PaintFrame\<close> are the frames of the attached engines, one after
  the other in the order of attachment, each followed by its log line if it failed: every
  engine's frame is started exactly once, whatever the other frames returned. The whole
  frame of each engine is among the events; a frame that failed is logged; and an engine
  whose own answers let its frame complete is presented.
\<close>

theorem paint_all_isolates_failures:
  "(snd (snd (Renderer_PaintFrame pf r))
     = concat (map (\<lambda>(i, pEngine). frame_block pf (if i = 0 then r else after_check r) i pEngine)
         (enumerate 0 (rgpEngines r))))
   \<and> (filter starts_frame (snd (snd (Renderer_PaintFrame pf r)))
     = map (\<lambda>i. Call i StartPaint) [0..<length (rgpEngines r)])
   \<and> (\<forall>i<length (rgpEngines r).
        set (frame_block pf (if i = 0 then r else after_check r) i (rgpEngines r ! i))
          \<subseteq> set (snd (snd (Renderer_PaintFrame pf r)))
        \<and> (FAILED (fst (Renderer_PaintFrameForEngine pf (if i = 0 then r else after_check r) i (rgpEngines r ! i)))
             \<longrightarrow> Log (fst (Renderer_PaintFrameForEngine pf (if i = 0 then r else after_check r) i (rgpEngines r ! i)))
                    \<in> set (snd (snd (Renderer_PaintFrame pf r))))
        \<and> (frame_completes pf (pData r) i (rgpEngines r ! i)
             \<longrightarrow> Call i Present \<in> set (snd (snd (Renderer_PaintFrame pf r)))))"
  (is "?blocks \<and> ?starts \<and> ?each")
proof -
  let ?st = "\<lambda>i. if i = 0 then r else after_check r"
  have evs: "snd (snd (Renderer_PaintFrame pf r))
     = concat (map (\<lambda>(i, pEngine). frame_block pf (?st i) i pEngine) (enumerate 0 (rgpEngines r)))"
    by (simp add: Renderer_PaintFrame_def Let_def PaintFrame_engines_blocks)
  have starts: "filter starts_frame (snd (snd (Renderer_PaintFrame pf r)))
     = map (\<lambda>i. Call i StartPaint) [0..<length (rgpEngines r)]"
    using filter_starts_frame_blocks [of pf ?st 0 "rgpEngines r"] by (simp add: evs)
  have each: "set (frame_block pf (?st i) i (rgpEngines r ! i)) \<subseteq> set (snd (snd (Renderer_PaintFrame pf r)))"
    if "i < length (rgpEngines r)" for i
  proof -
    from that have "(i, rgpEngines r ! i) \<in> set (enumerate 0 (rgpEngines r))"
      by (simp add: in_set_enumerate_eq)
    then have "set (case (i, rgpEngines r ! i) of (i, pEngine) \<Rightarrow> frame_block pf (?st i) i pEngine)
        \<subseteq> set (concat (map (\<lambda>(i, pEngine). frame_block pf (?st i) i pEngine) (enumerate 0 (rgpEngines r))))"
      by (intro concat_member) simp
    then show ?thesis
      by (simp add: evs)
  qed
  have logged: "Log (fst (Renderer_PaintFrameForEngine pf s i pEngine)) \<in> set (frame_block pf s i pEngine)"
    if "FAILED (fst (Renderer_PaintFrameForEngine pf s i pEngine))" for s i pEngine
    using that by (simp add: frame_block_def LOG_IF_FAILED_def)
  have presented: "Call i Present \<in> set (frame_block pf s i pEngine)"
    if "frame_completes pf (pData s) i pEngine" for s i pEngine
    using that frame_presents [of i pf s i pEngine] by (simp add: frame_block_def)
  have pdata: "pData (?st i) = pData r" for i
    by simp
  have per_engine: "set (frame_block pf (?st i) i (rgpEngines r ! i)) \<subseteq> set (snd (snd (Renderer_PaintFrame pf r)))
        \<and> (FAILED (fst (Renderer_PaintFrameForEngine pf (?st i) i (rgpEngines r ! i)))
             \<longrightarrow> Log (fst (Renderer_PaintFrameForEngine pf (?st i) i (rgpEngines r ! i)))
                    \<in> set (snd (snd (Renderer_PaintFrame pf r))))
        \<and> (frame_completes pf (pData r) i (rgpEngines r ! i)
             \<longrightarrow> Call i Present \<in> set (snd (snd (Renderer_PaintFrame pf r))))"
    if i: "i < length (rgpEngines r)" for i
  proof (intro conjI impI)
    show "set (frame_block pf (?st i) i (rgpEngines r ! i)) \<subseteq> set (snd (snd (Renderer_PaintFrame pf r)))"
      by (rule each [OF i])
    show "Log (fst (Renderer_PaintFrameForEngine pf (?st i) i (rgpEngines r ! i)))
        \<in> set (snd (snd (Renderer_PaintFrame pf r)))"
      if "FAILED (fst (Renderer_PaintFrameForEngine pf (?st i) i (rgpEngines r ! i)))"
      using logged [OF that] each [OF i] by (rule subsetD [rotated])
    show "Call i Present \<in> set (snd (snd (Renderer_PaintFrame pf r)))"
      if "frame_completes pf (pData r) i (rgpEngines r ! i)"
    proof -
      have "frame_completes pf (pData (?st i)) i (rgpEngines r ! i)"
        unfolding pdata by (rule that)
      from presented [OF this] each [OF i] show ?thesis
        by (rule subsetD [rotated])
    qed
  qed
  show ?thesis
  proof (intro conjI)
    show ?blocks by (rule evs)
    show ?starts by (rule starts)
    show ?each by (intro allI impI) (rule per_engine)
  qed
qed


text \<open>
  The first engine fails to begin its frame; the second one still gets its frame, and is
  presented.
\<close>

theorem paint_all_isolates_failures_witness:
  "1 < length (rgpEngines (sample_renderer [sample_engine E_FAIL, sample_engine S_OK]))
   \<and> FAILED (fst (Renderer_PaintFrameForEngine sample_platform (sample_renderer [sample_engine E_FAIL, sample_engine S_OK])
        0 (sample_engine E_FAIL)))
   \<and> frame_completes sample_platform (pData (sample_renderer [sample_engine E_FAIL, sample_engine S_OK])) 1
        (sample_engine S_OK)
   \<and> filter starts_frame (snd (snd (Renderer_PaintFrame sample_platform
        (sample_renderer [sample_engine E_FAIL, sample_engine S_OK]))))
     = [Call 0 StartPaint, Call 1 StartPaint]
   \<and> Log E_FAIL \<in> set (snd (snd (Renderer_PaintFrame sample_platform
        (sample_renderer [sample_engine E_FAIL, sample_engine S_OK]))))
   \<and> Call 1 Present \<in> set (snd (snd (Renderer_PaintFrame sample_platform
        (sample_renderer [sample_engine E_FAIL, sample_engine S_OK]))))"
proof -
  let ?r = "sample_renderer [sample_engine E_FAIL, sample_engine S_OK]"
  have n: "1 < length (rgpEngines ?r)" and n0: "0 < length (rgpEngines ?r)"
    by (simp_all add: sample_renderer_def)
  have e0: "rgpEngines ?r ! 0 = sample_engine E_FAIL" and e1: "rgpEngines ?r ! 1 = sample_engine S_OK"
    by (simp_all add: sample_renderer_def)
  have hr: "fst (Renderer_PaintFrameForEngine sample_platform ?r 0 (sample_engine E_FAIL)) = E_FAIL"
    by (simp add: Renderer_PaintFrameForEngine_def Let_def sample_engine_def hresult_defs)
  have failed: "FAILED (fst (Renderer_PaintFrameForEngine sample_platform ?r 0 (sample_engine E_FAIL)))"
    by (simp add: hr) (simp add: hresult_defs)
  have ok: "frame_completes sample_platform (pData ?r) 1 (sample_engine S_OK)"
    by (simp add: frame_completes_def PaintFrame_guarded_def Renderer_UpdateDrawingBrushes_def Let_def
        sample_defs hresult_defs)
  have starts: "map (\<lambda>i. Call i StartPaint) [0..<length (rgpEngines ?r)] = [Call 0 StartPaint, Call 1 StartPaint]"
    by (simp add: sample_renderer_def upt_rec)
  from paint_all_isolates_failures [of sample_platform ?r]
  have s: "filter starts_frame (snd (snd (Renderer_PaintFrame sample_platform ?r)))
      = map (\<lambda>i. Call i StartPaint) [0..<length (rgpEngines ?r)]"
    and l: "FAILED (fst (Renderer_PaintFrameForEngine sample_platform (if (0::nat) = 0 then ?r else after_check ?r) 0 (rgpEngines ?r ! 0)))
             \<longrightarrow> Log (fst (Renderer_PaintFrameForEngine sample_platform (if (0::nat) = 0 then ?r else after_check ?r) 0 (rgpEngines ?r ! 0)))
                    \<in> set (snd (snd (Renderer_PaintFrame sample_platform ?r)))"
    and p: "frame_completes sample_platform (pData ?r) 1 (rgpEngines ?r ! 1)
             \<longrightarrow> Call 1 Present \<in> set (snd (snd (Renderer_PaintFrame sample_platform ?r)))"
    using n n0 by blast+
  from l failed e0 hr have "Log E_FAIL \<in> set (snd (snd (Renderer_PaintFrame sample_platform ?r)))"
    by simp
  moreover from p ok e1 have "Call 1 Present \<in> set (snd (snd (Renderer_PaintFrame sample_platform ?r)))"
    by simp
  ultimately show ?thesis
    using n failed ok s starts by simp
qed


subsection \<open>Cursor\<close>

lemma TriggerRedrawCursor_engines_calls:
  "calls_to j (TriggerRedrawCursor_engines d c (enumerate k engines)) =
     (if k \<le> j \<and> j < k + length engines then
        (if IsCursorDoubleWidth d
         then [InvalidateCursor (c\<lparr>X := X c + of_nat (j - k)\<rparr>),
               InvalidateCursor (c\<lparr>X := X c + of_nat (j - k) + 1\<rparr>)]
         else [InvalidateCursor c])
      else [])"
proof (induction engines arbitrary: k c)
  case Nil
  then show ?case by simp
next
  case (Cons pEngine engines)
  show ?case
  proof (cases "j = k")
    case True
    then have kj: "k = j" by simp
    show ?thesis unfolding kj by (simp add: Cons.IH)
  next
    case False
    have "j - k = Suc (j - Suc k)" if "k < j"
      using that by simp
    then show ?thesis
      using False by (auto simp: Cons.IH add.assoc)
  qed
qed

text \<open>
  C4. With a double-width cursor \<^verbatim>\<open>updateCoord.X++\<close> stays in effect for the next
  engine: the engine at index \<open>j\<close> is asked to invalidate the columns \<open>j\<close> and \<open>j + 1\<close>
  to the right of the cursor cell (lemma \<open>TriggerRedrawCursor_engines_calls\<close>). With two
  engines and the cursor on a wide glyph at column 5, the first engine invalidates
  columns 5 and 6, the second one columns 6 and 7: not the same pair, and not the cursor
  cell.
\<close>

theorem cursor_invalidation_drifts:
  "IsInBounds (GetViewport (pData ((sample_renderer [sample_engine S_OK, sample_engine S_OK])
        \<lparr>pData := sample_data\<lparr>IsCursorDoubleWidth := True\<rparr>\<rparr>))) \<lparr>X = 5, Y = 0\<rparr>
   \<and> calls_to 0 (Renderer_TriggerRedrawCursor ((sample_renderer [sample_engine S_OK, sample_engine S_OK])
        \<lparr>pData := sample_data\<lparr>IsCursorDoubleWidth := True\<rparr>\<rparr>) \<lparr>X = 5, Y = 0\<rparr>)
     = [InvalidateCursor \<lparr>X = 5, Y = 0\<rparr>, InvalidateCursor \<lparr>X = 6, Y = 0\<rparr>]
   \<and> calls_to 1 (Renderer_TriggerRedrawCursor ((sample_renderer [sample_engine S_OK, sample_engine S_OK])
        \<lparr>pData := sample_data\<lparr>IsCursorDoubleWidth := True\<rparr>\<rparr>) \<lparr>X = 5, Y = 0\<rparr>)
     = [InvalidateCursor \<lparr>X = 6, Y = 0\<rparr>, InvalidateCursor \<lparr>X = 7, Y = 0\<rparr>]"
  by (simp add: Renderer_TriggerRedrawCursor_def Renderer_NotifyPaintFrame_def Let_def sample_defs
      logged_def LOG_IF_FAILED_def hresult_defs)

subsection \<open>Paint all reports success\<close>



subsection \<open>Teardown\<close>

lemma calls_to_internal:
  "\<forall>ev\<in>set xs. frame_internal ev \<Longrightarrow>
     count_list (calls_to j xs) StartPaint = 0 \<and> count_list (calls_to j xs) PrepareForTeardown = 0"
proof (induction xs)
  case Nil
  then show ?case by simp
next
  case (Cons ev xs)
  then show ?case
    by (cases ev) auto
qed

lemma frame_call_counts:
  "count_list (calls_to j (snd (snd (Renderer_PaintFrameForEngine pf r i pEngine)))) StartPaint = (if j = i then 1 else 0)
   \<and> count_list (calls_to j (snd (snd (Renderer_PaintFrameForEngine pf r i pEngine)))) PrepareForTeardown = 0"
proof -
  obtain mid where evs: "snd (snd (Renderer_PaintFrameForEngine pf r i pEngine))
           = LockConsole # snd (snd (Renderer_CheckViewportAndScroll r)) @ Call i StartPaint # mid
             @ UnlockConsole # (if frame_completes pf (pData r) i pEngine then [Call i Present] else [])"
    and mid: "\<forall>ev\<in>set mid. frame_internal ev"
    using frame_shape by blast
  have check: "\<forall>ev\<in>set (snd (snd (Renderer_CheckViewportAndScroll r))). frame_internal ev"
    by (auto dest: internal_CheckViewportAndScroll)
  show ?thesis
    using calls_to_internal [OF check, of j] calls_to_internal [OF mid, of j]
    by (auto simp: evs)
qed

lemma TriggerTeardown_engines_thread:
  "pThread (fst (TriggerTeardown_engines pf r engines)) = pThread r"
  by (induction engines arbitrary: r) (auto simp: Let_def PaintFrameForEngine_state)

lemma TriggerTeardown_engines_counts:
  "count_list (calls_to j (snd (TriggerTeardown_engines pf r (enumerate k engines)))) PrepareForTeardown
     = (if k \<le> j \<and> j < k + length engines then 1 else 0)
   \<and> count_list (calls_to j (snd (TriggerTeardown_engines pf r (enumerate k engines)))) StartPaint
     = (if k \<le> j \<and> j < k + length engines \<and> wants_final_repaint (engines ! (j - k)) then 1 else 0)"
proof (induction engines arbitrary: k r)
  case Nil
  then show ?case by simp
next
  case (Cons pEngine engines)
  have nth: "(pEngine # engines) ! (j - k) = engines ! (j - Suc k)" if "k < j"
    using that by (simp add: nth_Cons')
  show ?case
  proof (cases "wants_final_repaint pEngine")
    case True
    then show ?thesis
      using Cons.IH [of "fst (snd (Renderer_PaintFrameForEngine pf r k pEngine))" "Suc k"]
        frame_call_counts [of j pf r k pEngine] nth
      by (auto simp: Let_def wants_final_repaint_def)
  next
    case False
    then show ?thesis
      using Cons.IH [of r "Suc k"] nth
      by (auto simp: Let_def wants_final_repaint_def)
  qed
qed

text \<open>
  C7. After \<^verbatim>\<open>TriggerTeardown\<close> the paint thread is \<open>Disabled\<close>: the wait for the paint
  in flight (with an infinite timeout) is the first thing the function does. Every
  attached engine has received exactly one \<^verbatim>\<open>PrepareForTeardown\<close> call, and a frame
  has been begun on an engine exactly once if it asked for a final repaint (the call
  succeeded and set the flag), and not at all otherwise.
\<close>

theorem teardown_is_deterministic:
  "pThread (fst (Renderer_TriggerTeardown pf r)) = Disabled
   \<and> take 1 (snd (Renderer_TriggerTeardown pf r)) = [WaitForPaintCompletionAndDisable INFINITE]
   \<and> (\<forall>i<length (rgpEngines r).
        count_list (calls_to i (snd (Renderer_TriggerTeardown pf r))) PrepareForTeardown = 1
        \<and> count_list (calls_to i (snd (Renderer_TriggerTeardown pf r))) StartPaint
            = (if wants_final_repaint (rgpEngines r ! i) then 1 else 0))"
  using TriggerTeardown_engines_counts [of _ pf "r\<lparr>pThread := Disabled\<rparr>" 0 "rgpEngines r"]
  by (simp add: Renderer_TriggerTeardown_def Let_def TriggerTeardown_engines_thread
      RenderThread_WaitForPaintCompletionAndDisable_def)

text \<open>Two engines, of which the second asks for a final repaint: all events of the teardown.\<close>

theorem teardown_is_deterministic_witness:
  "1 < length (rgpEngines (sample_renderer [sample_engine S_OK, (sample_engine S_OK)\<lparr>RequestsRepaint := True\<rparr>]))
   \<and> wants_final_repaint ((sample_engine S_OK)\<lparr>RequestsRepaint := True\<rparr>)
   \<and> \<not> wants_final_repaint (sample_engine S_OK)
   \<and> snd (Renderer_TriggerTeardown sample_platform
        (sample_renderer [sample_engine S_OK, (sample_engine S_OK)\<lparr>RequestsRepaint := True\<rparr>]))
     = [WaitForPaintCompletionAndDisable INFINITE,
        Call 0 PrepareForTeardown,
        Call 1 PrepareForTeardown,
        LockConsole,
        Call 0 (UpdateViewport \<lparr>Left = 0, Top = 0, Right = 79, Bottom = 23\<rparr>),
        Call 0 (InvalidateScroll \<lparr>X = 0, Y = 0\<rparr>),
        Call 1 (UpdateViewport \<lparr>Left = 0, Top = 0, Right = 79, Bottom = 23\<rparr>),
        Call 1 (InvalidateScroll \<lparr>X = 0, Y = 0\<rparr>),
        Call 1 StartPaint,
        Call 1 (UpdateDrawingBrushes 0xC0C0C0 0 7 False True),
        Call 1 ScrollFrame,
        Call 1 PaintBackground,
        Call 1 GetDirtyRectInChars,
        Call 1 GetDirtyRectInChars,
        Call 1 (UpdateTitle []),
        Call 1 EndPaint,
        UnlockConsole,
        Call 1 Present]
   \<and> count_list (calls_to 1 (snd (Renderer_TriggerTeardown sample_platform
        (sample_renderer [sample_engine S_OK, (sample_engine S_OK)\<lparr>RequestsRepaint := True\<rparr>])))) StartPaint = 1
   \<and> count_list (calls_to 0 (snd (Renderer_TriggerTeardown sample_platform
        (sample_renderer [sample_engine S_OK, (sample_engine S_OK)\<lparr>RequestsRepaint := True\<rparr>])))) StartPaint = 0
   \<and> pThread (fst (Renderer_TriggerTeardown sample_platform
        (sample_renderer [sample_engine S_OK, (sample_engine S_OK)\<lparr>RequestsRepaint := True\<rparr>]))) = Disabled"
proof -
  let ?r = "sample_renderer [sample_engine S_OK, (sample_engine S_OK)\<lparr>RequestsRepaint := True\<rparr>]"
  have n: "1 < length (rgpEngines ?r)" and n0: "0 < length (rgpEngines ?r)"
    by (simp_all add: sample_renderer_def)
  have w1: "wants_final_repaint ((sample_engine S_OK)\<lparr>RequestsRepaint := True\<rparr>)"
    and w0: "\<not> wants_final_repaint (sample_engine S_OK)"
    by (simp_all add: wants_final_repaint_def sample_engine_def hresult_defs)
  have e: "rgpEngines ?r ! 1 = (sample_engine S_OK)\<lparr>RequestsRepaint := True\<rparr>" "rgpEngines ?r ! 0 = sample_engine S_OK"
    by (simp_all add: sample_renderer_def)
  have evs: "snd (Renderer_TriggerTeardown sample_platform ?r)
     = [WaitForPaintCompletionAndDisable INFINITE,
        Call 0 PrepareForTeardown,
        Call 1 PrepareForTeardown,
        LockConsole,
        Call 0 (UpdateViewport \<lparr>Left = 0, Top = 0, Right = 79, Bottom = 23\<rparr>),
        Call 0 (InvalidateScroll \<lparr>X = 0, Y = 0\<rparr>),
        Call 1 (UpdateViewport \<lparr>Left = 0, Top = 0, Right = 79, Bottom = 23\<rparr>),
        Call 1 (InvalidateScroll \<lparr>X = 0, Y = 0\<rparr>),
        Call 1 StartPaint,
        Call 1 (UpdateDrawingBrushes 0xC0C0C0 0 7 False True),
        Call 1 ScrollFrame,
        Call 1 PaintBackground,
        Call 1 GetDirtyRectInChars,
        Call 1 GetDirtyRectInChars,
        Call 1 (UpdateTitle []),
        Call 1 EndPaint,
        UnlockConsole,
        Call 1 Present]"
    by (simp add: Renderer_TriggerTeardown_def sample_defs hresult_defs Renderer_CheckViewportAndScroll_def
      Renderer_PaintFrameForEngine_def PaintFrame_guarded_def paint_layers_def Renderer_PaintBufferOutput_def
      Renderer_PaintImeCompositionString_def Renderer_PaintSelection_def Renderer_PaintCursor_def
      Renderer_GetSelectionRects_def Renderer_UpdateDrawingBrushes_def paint_rows_def
      RenderThread_WaitForPaintCompletionAndDisable_def logged_def LOG_IF_FAILED_def Let_def)
  from teardown_is_deterministic [of sample_platform ?r] n n0
  have "pThread (fst (Renderer_TriggerTeardown sample_platform ?r)) = Disabled"
    and "count_list (calls_to 1 (snd (Renderer_TriggerTeardown sample_platform ?r))) StartPaint
            = (if wants_final_repaint (rgpEngines ?r ! 1) then 1 else 0)"
    and "count_list (calls_to 0 (snd (Renderer_TriggerTeardown sample_platform ?r))) StartPaint
            = (if wants_final_repaint (rgpEngines ?r ! 0) then 1 else 0)"
    by blast+
  with n w1 w0 e evs show ?thesis
    by (simp only: if_True if_False simp_thms)
qed

subsection \<open>Font queries\<close>

lemma engines_asked_Nil [simp]: "engines_asked c [] = []"
  by (simp add: engines_asked_def)

lemma engines_asked_Cons [simp]:
  "engines_asked c (pEngine # engines) =
     (if Returns pEngine c = S_OK then [pEngine] else pEngine # engines_asked c engines)"
  by (simp add: engines_asked_def)

lemma GetProposedFont_engines_result:
  "fst (GetProposedFont_engines iDpi desired font (enumerate k engines))
     = (if \<exists>pEngine\<in>set engines. Returns pEngine (GetProposedFont desired iDpi) = S_OK then S_OK else E_FAIL,
        fold (\<lambda>pEngine. ProposedFont pEngine desired iDpi) (engines_asked (GetProposedFont desired iDpi) engines) font)"
  by (induction engines arbitrary: k font) (simp_all add: Let_def)

lemma GetFontSize_engines_result:
  "fst (GetFontSize_engines fontSize (enumerate k engines))
     = fold FontSize (engines_asked GetFontSize engines) fontSize"
  by (induction engines arbitrary: k fontSize) (simp_all add: Let_def)

lemma IsGlyphWideByFont_engines_result:
  "fst (IsGlyphWideByFont_engines glyph fIsFullWidth (enumerate k engines))
     = fold (\<lambda>pEngine. GlyphIsWide pEngine glyph) (engines_asked (IsGlyphWideByFont glyph) engines) fIsFullWidth"
  by (induction engines arbitrary: k fIsFullWidth) (simp_all add: Let_def)

lemma GetProposedFont_engines_calls:
  "calls_to j (snd (GetProposedFont_engines iDpi desired font (enumerate k engines)))
     = (if k \<le> j \<and> j < k + length (engines_asked (GetProposedFont desired iDpi) engines)
        then [GetProposedFont desired iDpi] else [])"
  by (induction engines arbitrary: k font) (auto simp: Let_def)

lemma GetFontSize_engines_calls:
  "calls_to j (snd (GetFontSize_engines fontSize (enumerate k engines)))
     = (if k \<le> j \<and> j < k + length (engines_asked GetFontSize engines) then [GetFontSize] else [])"
  by (induction engines arbitrary: k fontSize) (auto simp: Let_def)

lemma IsGlyphWideByFont_engines_calls:
  "calls_to j (snd (IsGlyphWideByFont_engines glyph fIsFullWidth (enumerate k engines)))
     = (if k \<le> j \<and> j < k + length (engines_asked (IsGlyphWideByFont glyph) engines)
        then [IsGlyphWideByFont glyph] else [])"
  by (induction engines arbitrary: k fIsFullWidth) (auto simp: Let_def)

text \<open>
  C9, as amended. With at most two engines attached, each of the three queries asks the
  engines in order up to and including the first one that answers \<^verbatim>\<open>S_OK\<close>, and
  returns what the out-parameter holds after these calls. \<^verbatim>\<open>GetProposedFont\<close> returns
  \<^verbatim>\<open>S_OK\<close> with it if an engine answered \<^verbatim>\<open>S_OK\<close> and \<^verbatim>\<open>E_FAIL\<close> otherwise.
  \<^verbatim>\<open>GetFontSize\<close> and \<^verbatim>\<open>IsGlyphWideByFont\<close> return a plain value in both cases: with
  no \<^verbatim>\<open>S_OK\<close> answer, what the variable holds after all engines were asked, starting
  from \<open>{1, 1}\<close> and from \<open>false\<close>. With more than two engines attached the queries fail
  fast.
\<close>

theorem font_queries:
  "(length (rgpEngines r) \<le> 2 \<longrightarrow>
      returned (Renderer_GetProposedFont r iDpi desired font)
        = Return (if \<exists>pEngine\<in>set (rgpEngines r). Returns pEngine (GetProposedFont desired iDpi) = S_OK
                  then S_OK else E_FAIL,
                  fold (\<lambda>pEngine. ProposedFont pEngine desired iDpi)
                    (engines_asked (GetProposedFont desired iDpi) (rgpEngines r)) font)
      \<and> returned (Renderer_GetFontSize r)
        = Return (fold FontSize (engines_asked GetFontSize (rgpEngines r)) \<lparr>X = 1, Y = 1\<rparr>)
      \<and> returned (Renderer_IsGlyphWideByFont r glyph)
        = Return (fold (\<lambda>pEngine. GlyphIsWide pEngine glyph)
                    (engines_asked (IsGlyphWideByFont glyph) (rgpEngines r)) False)
      \<and> calls_to i (events_of (Renderer_GetProposedFont r iDpi desired font))
        = (if i < length (engines_asked (GetProposedFont desired iDpi) (rgpEngines r))
           then [GetProposedFont desired iDpi] else [])
      \<and> calls_to i (events_of (Renderer_GetFontSize r))
        = (if i < length (engines_asked GetFontSize (rgpEngines r)) then [GetFontSize] else [])
      \<and> calls_to i (events_of (Renderer_IsGlyphWideByFont r glyph))
        = (if i < length (engines_asked (IsGlyphWideByFont glyph) (rgpEngines r))
           then [IsGlyphWideByFont glyph] else []))
   \<and> (2 < length (rgpEngines r) \<longrightarrow>
      Renderer_GetProposedFont r iDpi desired font = FailFast
      \<and> Renderer_GetFontSize r = FailFast
      \<and> Renderer_IsGlyphWideByFont r glyph = FailFast)"
proof (intro conjI impI)
  assume n: "length (rgpEngines r) \<le> 2"
  show "returned (Renderer_GetProposedFont r iDpi desired font)
        = Return (if \<exists>pEngine\<in>set (rgpEngines r). Returns pEngine (GetProposedFont desired iDpi) = S_OK
                  then S_OK else E_FAIL,
                  fold (\<lambda>pEngine. ProposedFont pEngine desired iDpi)
                    (engines_asked (GetProposedFont desired iDpi) (rgpEngines r)) font)"
    using n by (cases "rgpEngines r = []")
      (simp_all add: returned_def Renderer_GetProposedFont_def GetProposedFont_engines_result less_Suc0)
  show "returned (Renderer_GetFontSize r)
        = Return (fold FontSize (engines_asked GetFontSize (rgpEngines r)) \<lparr>X = 1, Y = 1\<rparr>)"
    using n by (simp add: returned_def Renderer_GetFontSize_def GetFontSize_engines_result)
  show "returned (Renderer_IsGlyphWideByFont r glyph)
        = Return (fold (\<lambda>pEngine. GlyphIsWide pEngine glyph)
                    (engines_asked (IsGlyphWideByFont glyph) (rgpEngines r)) False)"
    using n by (simp add: returned_def Renderer_IsGlyphWideByFont_def IsGlyphWideByFont_engines_result)
  show "calls_to i (events_of (Renderer_GetProposedFont r iDpi desired font))
        = (if i < length (engines_asked (GetProposedFont desired iDpi) (rgpEngines r))
           then [GetProposedFont desired iDpi] else [])"
    using n by (cases "rgpEngines r = []")
      (simp_all add: events_of_def Renderer_GetProposedFont_def GetProposedFont_engines_calls less_Suc0)
  show "calls_to i (events_of (Renderer_GetFontSize r))
        = (if i < length (engines_asked GetFontSize (rgpEngines r)) then [GetFontSize] else [])"
    using n by (simp add: events_of_def Renderer_GetFontSize_def GetFontSize_engines_calls)
  show "calls_to i (events_of (Renderer_IsGlyphWideByFont r glyph))
        = (if i < length (engines_asked (IsGlyphWideByFont glyph) (rgpEngines r))
           then [IsGlyphWideByFont glyph] else [])"
    using n by (simp add: events_of_def Renderer_IsGlyphWideByFont_def IsGlyphWideByFont_engines_calls)
next
  assume "2 < length (rgpEngines r)"
  then show "Renderer_GetProposedFont r iDpi desired font = FailFast"
    and "Renderer_GetFontSize r = FailFast"
    and "Renderer_IsGlyphWideByFont r glyph = FailFast"
    by (auto simp: Renderer_GetProposedFont_def Renderer_GetFontSize_def Renderer_IsGlyphWideByFont_def)
qed

text \<open>
  An engine that answers \<^verbatim>\<open>S_FALSE\<close> followed by one that answers \<^verbatim>\<open>S_OK\<close> with an
  8 by 16 font; and three engines.
\<close>

theorem font_queries_witness:
  "length (rgpEngines (sample_renderer [sample_engine S_FALSE, (sample_engine S_OK)\<lparr>FontSize := (\<lambda>size. \<lparr>X = 8, Y = 16\<rparr>)\<rparr>])) \<le> 2
   \<and> returned (Renderer_GetFontSize
        (sample_renderer [sample_engine S_FALSE, (sample_engine S_OK)\<lparr>FontSize := (\<lambda>size. \<lparr>X = 8, Y = 16\<rparr>)\<rparr>]))
     = Return \<lparr>X = 8, Y = 16\<rparr>
   \<and> returned (Renderer_GetProposedFont
        (sample_renderer [sample_engine S_FALSE, (sample_engine S_OK)\<lparr>FontSize := (\<lambda>size. \<lparr>X = 8, Y = 16\<rparr>)\<rparr>])
        96 [] \<lparr>IsTrueTypeFont = True, GetCodePage = 437\<rparr>)
     = Return (S_OK, \<lparr>IsTrueTypeFont = True, GetCodePage = 437\<rparr>)
   \<and> 2 < length (rgpEngines (sample_renderer [sample_engine S_OK, sample_engine S_OK, sample_engine S_OK]))
   \<and> Renderer_GetFontSize (sample_renderer [sample_engine S_OK, sample_engine S_OK, sample_engine S_OK]) = FailFast"
  using font_queries [of "sample_renderer [sample_engine S_FALSE, (sample_engine S_OK)\<lparr>FontSize := (\<lambda>size. \<lparr>X = 8, Y = 16\<rparr>)\<rparr>]"
      96 "[]" "\<lparr>IsTrueTypeFont = True, GetCodePage = 437\<rparr>" "[]" 0]
    font_queries [of "sample_renderer [sample_engine S_OK, sample_engine S_OK, sample_engine S_OK]"
      96 "[]" "\<lparr>IsTrueTypeFont = True, GetCodePage = 437\<rparr>" "[]" 0]
  by (simp add: sample_renderer_def sample_engine_def hresult_defs)

text \<open>
  C9 as stated fails for \<^verbatim>\<open>GetFontSize\<close> and \<^verbatim>\<open>IsGlyphWideByFont\<close>: with no
  \<^verbatim>\<open>S_OK\<close> answer (one engine answering \<^verbatim>\<open>S_FALSE\<close> or failing, or no engine at
  all) they return the same value as with an engine that answers \<^verbatim>\<open>S_OK\<close> and
  reports a 1 by 1 font, or a glyph that is not wide.
\<close>

theorem font_query_failure_not_reported:
  "Returns (sample_engine S_FALSE) GetFontSize \<noteq> S_OK
   \<and> returned (Renderer_GetFontSize (sample_renderer [sample_engine S_FALSE])) = Return \<lparr>X = 1, Y = 1\<rparr>
   \<and> returned (Renderer_GetFontSize (sample_renderer [])) = Return \<lparr>X = 1, Y = 1\<rparr>
   \<and> Returns ((sample_engine S_OK)\<lparr>FontSize := (\<lambda>size. \<lparr>X = 1, Y = 1\<rparr>)\<rparr>) GetFontSize = S_OK
   \<and> returned (Renderer_GetFontSize
        (sample_renderer [(sample_engine S_OK)\<lparr>FontSize := (\<lambda>size. \<lparr>X = 1, Y = 1\<rparr>)\<rparr>]))
     = Return \<lparr>X = 1, Y = 1\<rparr>
   \<and> Returns (sample_engine E_FAIL) (IsGlyphWideByFont [0x3042]) \<noteq> S_OK
   \<and> returned (Renderer_IsGlyphWideByFont (sample_renderer [sample_engine E_FAIL]) [0x3042]) = Return False
   \<and> Returns ((sample_engine S_OK)\<lparr>GlyphIsWide := (\<lambda>glyph wide. False)\<rparr>) (IsGlyphWideByFont [0x3042]) = S_OK
   \<and> returned (Renderer_IsGlyphWideByFont
        (sample_renderer [(sample_engine S_OK)\<lparr>GlyphIsWide := (\<lambda>glyph wide. False)\<rparr>]) [0x3042])
     = Return False"
  by (simp add: returned_def Renderer_GetFontSize_def Renderer_IsGlyphWideByFont_def Let_def
      sample_renderer_def sample_engine_def hresult_defs)

end
